theory Spec2Isabelle
  imports Complex_Main
begin

section \<open>Python values used by \<^verbatim>\<open>arkane/qchem.py\<close>\<close>

text \<open>
  The module \<^verbatim>\<open>arkane/qchem.py\<close> holds one class, \<^verbatim>\<open>QchemLog\<close>, whose methods scan
  the text of a Q-Chem output file. The embedding follows the Python line by line.

  \<^item> A log file is the list of its lines, each without its line terminator.
    \<^verbatim>\<open>f.readline()\<close> hands out the next line with the terminator appended and the
    empty string at the end of the file, again and again.
  \<^item> A Python \<^verbatim>\<open>float\<close> is a real number: rounding and infinities are not modelled,
    and NaN only where \<^verbatim>\<open>numpy.sqrt\<close> makes one. The builtin \<^verbatim>\<open>float(s)\<close> is a parameter
    \<open>fl\<close> of every function that parses numbers; \<open>fl s = None\<close> stands for the
    \<^verbatim>\<open>ValueError\<close> of an unparsable token.
  \<^item> A loop that the code can run for ever is a partial function into \<open>option\<close>:
    \<open>None\<close> is a call that does not return.
  \<^item> Every exception is a value of the type \<open>error\<close>; a function that can raise
    returns \<open>error + 'a\<close>.
  \<^item> \<^verbatim>\<open>logging.debug\<close> and \<^verbatim>\<open>print\<close> have no effect on the results and are left out.
\<close>

datatype error =
    InputError string
  | ValueError
  | IndexError
  | UnboundLocalError
  | ZeroDivisionError
  | OtherError string

type_synonym 'a result = "error + 'a"

definition bind_result :: "'a result \<Rightarrow> ('a \<Rightarrow> 'b result) \<Rightarrow> 'b result" where
  "bind_result r k = (case r of Inl e \<Rightarrow> Inl e | Inr v \<Rightarrow> k v)"

subsection \<open>Strings\<close>

text \<open>\<^verbatim>\<open>s.startswith(p)\<close>, written with the prefix first.\<close>

fun startswith :: "string \<Rightarrow> string \<Rightarrow> bool" where
  "startswith [] s = True"
| "startswith (p # ps) [] = False"
| "startswith (p # ps) (c # cs) = (p = c \<and> startswith ps cs)"

text \<open>\<^verbatim>\<open>m in s\<close> on strings: \<open>m\<close> occurs in \<open>s\<close> as a contiguous substring.\<close>

fun py_in :: "string \<Rightarrow> string \<Rightarrow> bool" where
  "py_in m [] = (m = [])"
| "py_in m (c # cs) = (startswith m (c # cs) \<or> py_in m cs)"

text \<open>The whitespace of \<^verbatim>\<open>str.split()\<close>: space, tab, newline, vertical tab, form
  feed, carriage return.\<close>

definition is_space :: "char \<Rightarrow> bool" where
  "is_space c = (c = CHR '' '' \<or> c = CHR 0x09 \<or> c = CHR 0x0A \<or> c = CHR 0x0B
     \<or> c = CHR 0x0C \<or> c = CHR 0x0D)"

text \<open>\<^verbatim>\<open>s.split()\<close>: the maximal runs of non-whitespace characters. The first
  argument is the token being read.\<close>

fun split_from :: "string \<Rightarrow> string \<Rightarrow> string list" where
  "split_from w [] = (if w = [] then [] else [w])"
| "split_from w (c # cs) =
     (if is_space c then (if w = [] then split_from [] cs else w # split_from [] cs)
      else split_from (w @ [c]) cs)"

definition py_split :: "string \<Rightarrow> string list" where
  "py_split s = split_from [] s"

text \<open>\<^verbatim>\<open>xs[i]\<close> for an index \<open>i \<ge> 0\<close>.\<close>

definition py_index :: "'a list \<Rightarrow> nat \<Rightarrow> 'a result" where
  "py_index xs i = (if i < length xs then Inr (xs ! i) else Inl IndexError)"

text \<open>\<^verbatim>\<open>xs[-n:]\<close>: the last \<open>n\<close> elements, all of them when there are fewer.\<close>

definition last_n :: "nat \<Rightarrow> 'a list \<Rightarrow> 'a list" where
  "last_n n xs = drop (length xs - n) xs"

text \<open>\<^verbatim>\<open>float(s)\<close> with its \<^verbatim>\<open>ValueError\<close>.\<close>

definition py_float :: "(string \<Rightarrow> real option) \<Rightarrow> string \<Rightarrow> real result" where
  "py_float fl s = (case fl s of None \<Rightarrow> Inl ValueError | Some v \<Rightarrow> Inr v)"

text \<open>\<^verbatim>\<open>[float(d) for d in ds]\<close>: the first token that does not parse raises.\<close>

fun py_floats :: "(string \<Rightarrow> real option) \<Rightarrow> string list \<Rightarrow> real list result" where
  "py_floats fl [] = Inr []"
| "py_floats fl (d # ds) =
     bind_result (py_float fl d) (\<lambda>v.
     bind_result (py_floats fl ds) (\<lambda>vs. Inr (v # vs)))"

text \<open>\<^verbatim>\<open>int(x)\<close> of a float: truncation towards zero.\<close>

definition py_int :: "real \<Rightarrow> int" where
  "py_int x = (if 0 \<le> x then \<lfloor>x\<rfloor> else \<lceil>x\<rceil>)"

subsection \<open>A decimal reader\<close>

text \<open>
  A concrete reader for the plain decimal literals of the logs (an optional sign,
  digits, an optional point and more digits). Python's \<^verbatim>\<open>float\<close> reads these the same
  way up to rounding; it also accepts exponents, \<^verbatim>\<open>inf\<close> and \<^verbatim>\<open>nan\<close>, which this
  reader refuses. The general theorems hold for every reader; this one runs the
  concrete logs.
\<close>

text \<open>The place of an element in a list, counted from 0.\<close>

fun position_of :: "'a \<Rightarrow> 'a list \<Rightarrow> nat option" where
  "position_of x [] = None"
| "position_of x (y # ys) = (if x = y then Some 0 else map_option Suc (position_of x ys))"

definition digit_val :: "char \<Rightarrow> nat option" where
  "digit_val c = position_of c ''0123456789''"

text \<open>The digits of \<open>s\<close> read as a natural number, continuing from \<open>acc\<close>.\<close>

fun digits_val :: "nat \<Rightarrow> string \<Rightarrow> nat option" where
  "digits_val acc [] = Some acc"
| "digits_val acc (c # cs) =
     (case digit_val c of None \<Rightarrow> None | Some d \<Rightarrow> digits_val (10 * acc + d) cs)"

definition unsigned_dec :: "string \<Rightarrow> real option" where
  "unsigned_dec s =
     (let ip = takeWhile (\<lambda>c. c \<noteq> CHR ''.'') s;
          fp = drop 1 (dropWhile (\<lambda>c. c \<noteq> CHR ''.'') s)
      in if ip = [] \<and> fp = [] then None
         else (case (digits_val 0 ip, digits_val 0 fp) of
                 (Some i, Some k) \<Rightarrow> Some (real i + real k / 10 ^ length fp)
               | _ \<Rightarrow> None))"

definition float_dec :: "string \<Rightarrow> real option" where
  "float_dec s =
     (case s of
        [] \<Rightarrow> None
      | c # cs \<Rightarrow>
          if c = CHR ''-'' then map_option uminus (unsigned_dec cs)
          else if c = CHR ''+'' then unsigned_dec cs
          else unsigned_dec s)"

subsection \<open>Reading a file line by line\<close>

text \<open>\<^verbatim>\<open>f.readline()\<close>: the line read and the rest of the file. At the end of the
  file the line is empty and the file stays where it is.\<close>

definition newline :: char where
  "newline = CHR 0x0A"

fun readline :: "string list \<Rightarrow> string \<times> string list" where
  "readline [] = ([], [])"
| "readline (l # ls) = (l @ [newline], ls)"

text \<open>What some loops measure: the lines still to come, counting the one in hand.\<close>

definition lines_left :: "string \<Rightarrow> string list \<Rightarrow> nat" where
  "lines_left line f = length f + (if line = [] then 0 else 1)"

lemma lines_left_readline:
  "line \<noteq> [] \<Longrightarrow> (case readline f of (line', f') \<Rightarrow> lines_left line' f') < lines_left line f"
  by (cases f) (auto simp: lines_left_def)

lemma bind_result_cong [fundef_cong]:
  "r = r' \<Longrightarrow> (\<And>v. r' = Inr v \<Longrightarrow> k v = k' v) \<Longrightarrow> bind_result r k = bind_result r' k'"
  by (auto simp: bind_result_def split: sum.splits)

text \<open>The terminator that \<open>readline\<close> appends changes neither a substring test for a
  marker without a newline nor the tokens of the line.\<close>

lemma startswith_append_char: "c \<notin> set m \<Longrightarrow> startswith m (s @ [c]) = startswith m s"
  by (induction m s rule: startswith.induct) auto

lemma py_in_append_char: "c \<notin> set m \<Longrightarrow> m \<noteq> [] \<Longrightarrow> py_in m (s @ [c]) = py_in m s"
  by (induction s) (auto simp: startswith_append_char neq_Nil_conv)

lemma split_from_append_space: "is_space c \<Longrightarrow> split_from w (s @ [c]) = split_from w s"
  by (induction s arbitrary: w) auto

lemma py_split_newline: "py_split (s @ [newline]) = py_split s"
  by (simp add: py_split_def split_from_append_space is_space_def newline_def)

section \<open>\<^verbatim>\<open>QchemLog.loadNegativeFrequency\<close>\<close>

text \<open>
  The loop of \<^verbatim>\<open>loadNegativeFrequency\<close>. The local variable \<^verbatim>\<open>frequency\<close> is bound
  only inside the \<^verbatim>\<open>if\<close>; the result \<open>None\<close> is the variable still unbound when the
  loop ends.
\<close>

function negfreq_loop ::
  "(string \<Rightarrow> real option) \<Rightarrow> string \<Rightarrow> string list \<Rightarrow> real option result" where
  "negfreq_loop fl line f =
     (if line = [] then Inr None
      else if py_in '' Frequency:'' line then
        bind_result (py_index (py_split line) 1) (\<lambda>tok.
        bind_result (py_float fl tok) (\<lambda>v. Inr (Some v)))
      else (case readline f of (line', f') \<Rightarrow> negfreq_loop fl line' f'))"
  by pat_completeness auto
termination
  by (relation "measure (\<lambda>(fl, line, f). lines_left line f)")
     (auto simp: lines_left_readline)

declare negfreq_loop.simps [simp del]

text \<open>The \<^verbatim>\<open>InputError\<close> that the specification calls \<^verbatim>\<open>NoImaginaryFrequency\<close>.\<close>

definition NoImaginaryFrequency :: "string \<Rightarrow> error" where
  "NoImaginaryFrequency path =
     InputError (''Unable to find imaginary frequency in QChem output file '' @ path)"

text \<open>The method: \<open>path\<close> is \<^verbatim>\<open>self.path\<close> and \<open>lns\<close> the lines of the file there.\<close>

definition loadNegativeFrequency ::
  "(string \<Rightarrow> real option) \<Rightarrow> string \<Rightarrow> string list \<Rightarrow> real result" where
  "loadNegativeFrequency fl path lns =
     (case readline lns of (line, f) \<Rightarrow>
        bind_result (negfreq_loop fl line f) (\<lambda>frequency.
          case frequency of
            None \<Rightarrow> Inl UnboundLocalError
          | Some v \<Rightarrow> if v < 0 then Inr v else Inl (NoImaginaryFrequency path)))"


subsection \<open>Properties\<close>

lemma frequency_marker_newline:
  "py_in '' Frequency:'' (s @ [newline]) = py_in '' Frequency:'' s"
  by (rule py_in_append_char) (simp_all add: newline_def)

lemma negfreq_loop_no_marker:
  "\<forall>l\<in>set f. \<not> py_in '' Frequency:'' l \<Longrightarrow> line = [] \<or> \<not> py_in '' Frequency:'' line \<Longrightarrow>
   negfreq_loop fl line f = Inr None"
proof (induction f arbitrary: line)
  case Nil
  then show ?case
    by (auto simp: negfreq_loop.simps [of fl line] negfreq_loop.simps [of fl "[]"])
next
  case (Cons l f)
  have "negfreq_loop fl (l @ [newline]) f = Inr None"
    using Cons.prems by (intro Cons.IH) (auto simp: frequency_marker_newline)
  with Cons.prems show ?case
    by (auto simp: negfreq_loop.simps [of fl line])
qed

lemma loadNegativeFrequency_skip:
  assumes "\<not> py_in '' Frequency:'' p"
  shows "loadNegativeFrequency fl path (p # lns) = loadNegativeFrequency fl path lns"
  using assms
  by (cases "readline lns")
     (simp add: loadNegativeFrequency_def negfreq_loop.simps [of fl "p @ [newline]"]
      frequency_marker_newline)

lemma loadNegativeFrequency_skip_all:
  "\<forall>p\<in>set pre. \<not> py_in '' Frequency:'' p \<Longrightarrow>
   loadNegativeFrequency fl path (pre @ lns) = loadNegativeFrequency fl path lns"
  by (induction pre) (simp_all add: loadNegativeFrequency_skip)

lemma loadNegativeFrequency_at_marker:
  assumes "py_in '' Frequency:'' l"
  shows "loadNegativeFrequency fl path (l # post) =
         bind_result (py_index (py_split l) 1) (\<lambda>tok.
         bind_result (py_float fl tok) (\<lambda>v.
           if v < 0 then Inr v else Inl (NoImaginaryFrequency path)))"
  using assms
  by (simp add: loadNegativeFrequency_def negfreq_loop.simps [of fl "l @ [newline]"]
      frequency_marker_newline py_split_newline bind_result_def split: sum.splits)

text \<open>
  C5. Let \<open>l\<close> be the first line of the log that contains the marker
  \<^verbatim>\<open>' Frequency:'\<close>, and let its second token (\<^verbatim>\<open>line.split()[1]\<close>, the first
  frequency of the row) parse to the number \<open>v\<close>. Then \<^verbatim>\<open>loadNegativeFrequency\<close>
  raises the \<^verbatim>\<open>NoImaginaryFrequency\<close> error exactly when \<open>0 \<le> v\<close>, and returns \<open>v\<close>
  when \<open>v\<close> is negative.
\<close>

theorem loadNegativeFrequency_first_marker:
  assumes "\<forall>p\<in>set pre. \<not> py_in '' Frequency:'' p"
    and "py_in '' Frequency:'' l"
    and "py_index (py_split l) 1 = Inr tok"
    and "fl tok = Some v"
  shows "loadNegativeFrequency fl path (pre @ l # post) =
           (if 0 \<le> v then Inl (NoImaginaryFrequency path) else Inr v)
         \<and> (loadNegativeFrequency fl path (pre @ l # post) = Inl (NoImaginaryFrequency path)
              \<longleftrightarrow> 0 \<le> v)"
proof -
  have "loadNegativeFrequency fl path (pre @ l # post) =
        loadNegativeFrequency fl path (l # post)"
    using assms(1) by (rule loadNegativeFrequency_skip_all)
  also have "\<dots> = (if 0 \<le> v then Inl (NoImaginaryFrequency path) else Inr v)"
    using assms(2-4)
    by (simp add: loadNegativeFrequency_at_marker bind_result_def py_float_def not_le)
  finally show ?thesis
    by simp
qed

lemmas run_strings =
  py_split_def is_space_def newline_def py_index_def py_float_def bind_result_def
  float_dec_def unsigned_dec_def digit_val_def last_n_def

theorem loadNegativeFrequency_first_marker_witness:
  "loadNegativeFrequency float_dec ''ts.out''
     ([''Q-Chem'', '' Mode:   1   2''] @ '' Frequency:   -512.25   100.50'' # [''tail'']) =
     Inr (- 512.25)
   \<and> loadNegativeFrequency float_dec ''min.out''
     ([''Q-Chem''] @ '' Frequency:   98.75   100.50'' # []) =
     Inl (NoImaginaryFrequency ''min.out'')"
proof -
  have a: "loadNegativeFrequency float_dec ''ts.out''
     ([''Q-Chem'', '' Mode:   1   2''] @ '' Frequency:   -512.25   100.50'' # [''tail'']) =
     (if 0 \<le> (- 512.25 :: real) then Inl (NoImaginaryFrequency ''ts.out'') else Inr (- 512.25))"
    by (rule loadNegativeFrequency_first_marker [where tok = "''-512.25''", THEN conjunct1])
       (simp_all add: run_strings)
  have b: "loadNegativeFrequency float_dec ''min.out''
     ([''Q-Chem''] @ '' Frequency:   98.75   100.50'' # []) =
     (if 0 \<le> (98.75 :: real) then Inl (NoImaginaryFrequency ''min.out'') else Inr 98.75)"
    by (rule loadNegativeFrequency_first_marker [where tok = "''98.75''", THEN conjunct1])
       (simp_all add: run_strings)
  from a b show ?thesis by simp
qed

text \<open>
  C10. When no line of the log contains the marker \<^verbatim>\<open>' Frequency:'\<close>, the variable
  \<^verbatim>\<open>frequency\<close> is never bound, and the final test \<^verbatim>\<open>frequency < 0\<close> raises Python's
  unbound-variable error: the call does not end in the \<^verbatim>\<open>NoImaginaryFrequency\<close>
  error.
\<close>

theorem loadNegativeFrequency_no_marker:
  assumes "\<forall>l\<in>set lns. \<not> py_in '' Frequency:'' l"
  shows "loadNegativeFrequency fl path lns = Inl UnboundLocalError
         \<and> loadNegativeFrequency fl path lns \<noteq> Inl (NoImaginaryFrequency path)"
proof -
  have "negfreq_loop fl (fst (readline lns)) (snd (readline lns)) = Inr None"
    using assms
    by (intro negfreq_loop_no_marker; cases lns) (auto simp: frequency_marker_newline)
  then show ?thesis
    by (cases "readline lns")
       (simp add: loadNegativeFrequency_def bind_result_def NoImaginaryFrequency_def)
qed

theorem loadNegativeFrequency_no_marker_witness:
  "loadNegativeFrequency float_dec ''sp.out'' [''Q-Chem'', ''Total job time:  1.0s''] =
     Inl UnboundLocalError
   \<and> loadNegativeFrequency float_dec ''empty.out'' [] = Inl UnboundLocalError"
  using loadNegativeFrequency_no_marker [of "[''Q-Chem'', ''Total job time:  1.0s'']"
      float_dec "''sp.out''"]
    loadNegativeFrequency_no_marker [of "[]" float_dec "''empty.out''"]
  by simp


section \<open>\<^verbatim>\<open>QchemLog.loadEnergy\<close> and \<^verbatim>\<open>QchemLog.loadZeroPointEnergy\<close>\<close>

text \<open>
  The physical constants come from the module \<^verbatim>\<open>rmgpy.constants\<close>, which is outside
  this file: the Bohr radius \<^verbatim>\<open>a0\<close> (in m), the Hartree energy \<^verbatim>\<open>E_h\<close> (in J) and the
  Avogadro constant \<^verbatim>\<open>Na\<close> (per mol). They are a parameter of the functions that use
  them.
\<close>

record constants =
  a0 :: real
  E_h :: real
  Na :: real

text \<open>Sample values, for running the functions on concrete logs.\<close>

definition sample_constants :: constants where
  "sample_constants =
     \<lparr>a0 = 52917721092 / 10 ^ 21, E_h = 435974434 / 10 ^ 26, Na = 602214179 * 10 ^ 15\<rparr>"

text \<open>The loop of \<^verbatim>\<open>loadEnergy\<close>; \<open>E0\<close> is \<open>None\<close> until a line sets it.\<close>

function energy_loop ::
  "constants \<Rightarrow> (string \<Rightarrow> real option) \<Rightarrow> real option \<Rightarrow> string \<Rightarrow> string list
   \<Rightarrow> real option result" where
  "energy_loop c fl E0 line f =
     (if line = [] then Inr E0
      else
        bind_result
          (if py_in ''Final energy is'' line then
             bind_result (py_index (py_split line) 3) (\<lambda>tok.
             bind_result (py_float fl tok) (\<lambda>v. Inr (Some (v * E_h c * Na c))))
           else Inr E0)
          (\<lambda>E0'. case readline f of (line', f') \<Rightarrow> energy_loop c fl E0' line' f'))"
  by pat_completeness auto
termination
  by (relation "measure (\<lambda>(c, fl, E0, line, f). lines_left line f)")
     (auto simp: lines_left_readline)

declare energy_loop.simps [simp del]

text \<open>The \<^verbatim>\<open>InputError\<close> that the specification calls \<^verbatim>\<open>EnergyNotFound\<close>.\<close>

definition EnergyNotFound :: error where
  "EnergyNotFound = InputError ''Unable to find energy in Qchem output file.''"

definition loadEnergy ::
  "constants \<Rightarrow> (string \<Rightarrow> real option) \<Rightarrow> string list \<Rightarrow> real \<Rightarrow> real result" where
  "loadEnergy c fl lns frequencyScaleFactor =
     (case readline lns of (line, f) \<Rightarrow>
        bind_result (energy_loop c fl None line f) (\<lambda>E0.
          case E0 of Some e \<Rightarrow> Inr e | None \<Rightarrow> Inl EnergyNotFound))"

text \<open>The loop of \<^verbatim>\<open>loadZeroPointEnergy\<close>; Q-Chem prints the value in kcal/mol.\<close>

function zpe_loop ::
  "(string \<Rightarrow> real option) \<Rightarrow> real option \<Rightarrow> string \<Rightarrow> string list \<Rightarrow> real option result" where
  "zpe_loop fl ZPE line f =
     (if line = [] then Inr ZPE
      else
        bind_result
          (if py_in ''Zero point vibrational energy'' line then
             bind_result (py_index (py_split line) 4) (\<lambda>tok.
             bind_result (py_float fl tok) (\<lambda>v. Inr (Some (v * 4184))))
           else Inr ZPE)
          (\<lambda>ZPE'. case readline f of (line', f') \<Rightarrow> zpe_loop fl ZPE' line' f'))"
  by pat_completeness auto
termination
  by (relation "measure (\<lambda>(fl, ZPE, line, f). lines_left line f)")
     (auto simp: lines_left_readline)

declare zpe_loop.simps [simp del]

text \<open>The \<^verbatim>\<open>InputError\<close> that the specification calls \<^verbatim>\<open>ZpeNotFound\<close>.\<close>

definition ZpeNotFound :: error where
  "ZpeNotFound = InputError ''Unable to find zero-point energy in Qchem output file.''"

definition loadZeroPointEnergy ::
  "(string \<Rightarrow> real option) \<Rightarrow> string list \<Rightarrow> real \<Rightarrow> real result" where
  "loadZeroPointEnergy fl lns frequencyScaleFactor =
     (case readline lns of (line, f) \<Rightarrow>
        bind_result (zpe_loop fl None line f) (\<lambda>ZPE.
          case ZPE of Some z \<Rightarrow> Inr z | None \<Rightarrow> Inl ZpeNotFound))"

subsection \<open>Properties\<close>

text \<open>
  C8. The result of \<^verbatim>\<open>loadEnergy\<close> and of \<^verbatim>\<open>loadZeroPointEnergy\<close>, a value or an
  exception, does not depend on the argument \<^verbatim>\<open>frequencyScaleFactor\<close>: two calls on
  the same file with any two scale factors give the same result.
\<close>

theorem energies_ignore_frequencyScaleFactor:
  "loadEnergy c fl lns s1 = loadEnergy c fl lns s2
   \<and> loadZeroPointEnergy fl lns s1 = loadZeroPointEnergy fl lns s2"
  by (simp add: loadEnergy_def loadZeroPointEnergy_def)

theorem energies_ignore_frequencyScaleFactor_witness:
  "loadEnergy \<lparr>a0 = 1, E_h = 2, Na = 3\<rparr> float_dec
     ['' Final energy is   -1.5'', '' Zero point vibrational energy:   10.25  kcal/mol''] 1 =
     Inr (- 9)
   \<and> loadEnergy \<lparr>a0 = 1, E_h = 2, Na = 3\<rparr> float_dec
     ['' Final energy is   -1.5'', '' Zero point vibrational energy:   10.25  kcal/mol''] 0.97 =
     Inr (- 9)
   \<and> loadZeroPointEnergy float_dec
     ['' Final energy is   -1.5'', '' Zero point vibrational energy:   10.25  kcal/mol''] 1 =
     Inr 42886
   \<and> loadZeroPointEnergy float_dec
     ['' Final energy is   -1.5'', '' Zero point vibrational energy:   10.25  kcal/mol''] 0.97 =
     Inr 42886"
proof -
  have e: "loadEnergy \<lparr>a0 = 1, E_h = 2, Na = 3\<rparr> float_dec
     ['' Final energy is   -1.5'', '' Zero point vibrational energy:   10.25  kcal/mol''] 1 =
     Inr (- 9)"
    by (simp add: loadEnergy_def energy_loop.simps run_strings)
  have z: "loadZeroPointEnergy float_dec
     ['' Final energy is   -1.5'', '' Zero point vibrational energy:   10.25  kcal/mol''] 1 =
     Inr 42886"
    by (simp add: loadZeroPointEnergy_def zpe_loop.simps run_strings)
  from e z show ?thesis
    using energies_ignore_frequencyScaleFactor [of "\<lparr>a0 = 1, E_h = 2, Na = 3\<rparr>" float_dec
        "['' Final energy is   -1.5'', '' Zero point vibrational energy:   10.25  kcal/mol'']"
        1 "0.97"]
    by simp
qed


section \<open>\<^verbatim>\<open>QchemLog.getNumberOfAtoms\<close>\<close>

text \<open>
  The inner loop of \<^verbatim>\<open>getNumberOfAtoms\<close> counts lines until one contains a row of 52
  dashes. It has no test for the end of the file: there \<^verbatim>\<open>readline\<close> returns the
  empty string for ever and the loop does not end. The functions of this method are
  therefore partial: \<open>None\<close> is a call that does not return.
\<close>

partial_function (option) count_rows ::
  "nat \<Rightarrow> string \<Rightarrow> string list \<Rightarrow> (nat \<times> string \<times> string list) option" where
  "count_rows Natoms line f =
     (if \<not> py_in ''----------------------------------------------------'' line then
        (case readline f of (line', f') \<Rightarrow> count_rows (Natoms + 1) line' f')
      else Some (Natoms, line, f))"

text \<open>The three \<^verbatim>\<open>readline\<close> calls of \<^verbatim>\<open>for i in range(3)\<close>.\<close>

definition skip3 :: "string list \<Rightarrow> string \<times> string list" where
  "skip3 f =
     (case readline f of (line1, f1) \<Rightarrow>
      case readline f1 of (line2, f2) \<Rightarrow> readline f2)"

partial_function (option) natoms_loop :: "nat \<Rightarrow> string \<Rightarrow> string list \<Rightarrow> nat option" where
  "natoms_loop Natoms line f =
     (if line \<noteq> [] \<and> Natoms = 0 then
        Option.bind
          (if py_in ''Standard Nuclear Orientation'' line \<and> Natoms = 0 then
             (case skip3 f of (line3, f3) \<Rightarrow> count_rows Natoms line3 f3)
           else Some (Natoms, line, f))
          (\<lambda>r. case r of (Natoms', line', f') \<Rightarrow>
             (case readline f' of (line'', f'') \<Rightarrow> natoms_loop Natoms' line'' f''))
      else Some Natoms)"

definition getNumberOfAtoms :: "string list \<Rightarrow> nat option" where
  "getNumberOfAtoms lns = (case readline lns of (line, f) \<Rightarrow> natoms_loop 0 line f)"

section \<open>\<^verbatim>\<open>QchemLog.loadForceConstantMatrix\<close>\<close>

text \<open>A \<^verbatim>\<open>for\<close> loop over a list of indices whose body may raise.\<close>

fun for_each :: "'i list \<Rightarrow> ('i \<Rightarrow> 's \<Rightarrow> 's result) \<Rightarrow> 's \<Rightarrow> 's result" where
  "for_each [] body s = Inr s"
| "for_each (i # is) body s = bind_result (body i s) (for_each is body)"

text \<open>A two-dimensional NumPy array is the list of its rows.\<close>

type_synonym matrix = "real list list"

text \<open>\<^verbatim>\<open>numpy.zeros((m, n))\<close>.\<close>

definition zeros :: "nat \<Rightarrow> nat \<Rightarrow> matrix" where
  "zeros m n = replicate m (replicate n 0)"

text \<open>\<^verbatim>\<open>F[j, c] = v\<close> for indices \<open>j, c \<ge> 0\<close>; NumPy raises \<^verbatim>\<open>IndexError\<close> out of
  bounds.\<close>

definition set_elem :: "matrix \<Rightarrow> nat \<Rightarrow> nat \<Rightarrow> real \<Rightarrow> matrix result" where
  "set_elem F j c v =
     (if j < length F \<and> c < length (F ! j) then Inr (F[j := (F ! j)[c := v]])
      else Inl IndexError)"

text \<open>\<^verbatim>\<open>for k in range(len(data)-1): F[j,i*6+k] = float(data[k+1])\<close>: the right-hand
  side is evaluated before the assignment.\<close>

definition fill_row ::
  "(string \<Rightarrow> real option) \<Rightarrow> string list \<Rightarrow> nat \<Rightarrow> nat \<Rightarrow> matrix \<Rightarrow> matrix result" where
  "fill_row fl data j i F =
     for_each [0..<length data - 1]
       (\<lambda>k F. bind_result (py_index data (k + 1)) (\<lambda>tok.
              bind_result (py_float fl tok) (\<lambda>v. set_elem F j (i * 6 + k) v))) F"

text \<open>\<^verbatim>\<open>for j in range(Nrows)\<close>: one line of the file for each row of the matrix.\<close>

definition fill_rows ::
  "(string \<Rightarrow> real option) \<Rightarrow> nat \<Rightarrow> nat \<Rightarrow> matrix \<times> string list
   \<Rightarrow> (matrix \<times> string list) result" where
  "fill_rows fl Nrows i Ff =
     for_each [0..<Nrows]
       (\<lambda>j (F, f). case readline f of (dataline, f') \<Rightarrow>
          bind_result (fill_row fl (py_split dataline) j i F) (\<lambda>F'. Inr (F', f'))) Ff"

text \<open>\<^verbatim>\<open>for i in range(int(math.ceil(Nrows / 6.0)))\<close>: a header line, then the rows of
  the six columns from \<open>6 * i\<close> on.\<close>

definition read_hessian ::
  "(string \<Rightarrow> real option) \<Rightarrow> nat \<Rightarrow> string list \<Rightarrow> (matrix \<times> string list) result" where
  "read_hessian fl Nrows f =
     for_each [0..<nat \<lceil>real Nrows / 6\<rceil>]
       (\<lambda>i (F, f). case readline f of (header, f') \<Rightarrow> fill_rows fl Nrows i (F, f'))
       (zeros Nrows Nrows, f)"

text \<open>\<^verbatim>\<open>4.35974417e-18 / 5.291772108e-11**2\<close>: from Hartree per square Bohr radius to
  \<^verbatim>\<open>J/m^2\<close>.\<close>

definition hessian_factor :: real where
  "hessian_factor = (435974417 / 10 ^ 26) / (5291772108 / 10 ^ 20) ^ 2"

text \<open>\<^verbatim>\<open>F *= x\<close>.\<close>

definition scale :: "real \<Rightarrow> matrix \<Rightarrow> matrix" where
  "scale x F = map (map (\<lambda>v. v * x)) F"

lemma for_each_invariant:
  assumes "for_each is body s = Inr s'" and "P s"
    and "\<And>i t t'. P t \<Longrightarrow> body i t = Inr t' \<Longrightarrow> P t'"
  shows "P s'"
  using assms(1,2)
proof (induction "is" arbitrary: s)
  case Nil
  then show ?case by simp
next
  case (Cons i "is")
  then show ?case
    by (auto simp: bind_result_def split: sum.splits intro: assms(3))
qed

lemma fill_rows_length:
  assumes "fill_rows fl Nrows i (F, f) = Inr (F', f')"
  shows "length f' \<le> length f"
proof -
  have "length (snd (F', f')) \<le> length f"
    using assms unfolding fill_rows_def
  proof (rule for_each_invariant [where P = "\<lambda>t. length (snd t) \<le> length f"])
    show "length (snd (F, f)) \<le> length f" by simp
  next
    fix j and t t' :: "matrix \<times> string list"
    assume "length (snd t) \<le> length f"
      and "(case t of (F, f) \<Rightarrow> case readline f of (dataline, f') \<Rightarrow>
             bind_result (fill_row fl (py_split dataline) j i F) (\<lambda>F'. Inr (F', f'))) = Inr t'"
    then show "length (snd t') \<le> length f"
      by (cases t; cases "snd t") (auto simp: bind_result_def split: sum.splits)
  qed
  then show ?thesis by simp
qed

lemma read_hessian_length:
  assumes "read_hessian fl Nrows f = Inr (F', f')"
  shows "length f' \<le> length f"
proof -
  have "length (snd (F', f')) \<le> length f"
    using assms unfolding read_hessian_def
  proof (rule for_each_invariant [where P = "\<lambda>t. length (snd t) \<le> length f"])
    show "length (snd (zeros Nrows Nrows, f)) \<le> length f" by simp
  next
    fix i and t t' :: "matrix \<times> string list"
    assume "length (snd t) \<le> length f"
      and "(case t of (F, f) \<Rightarrow> case readline f of (header, f') \<Rightarrow>
              fill_rows fl Nrows i (F, f')) = Inr t'"
    then show "length (snd t') \<le> length f"
      by (cases t; cases t'; cases "snd t") (auto dest!: fill_rows_length)
  qed
  then show ?thesis by simp
qed

lemma lines_left_readline_le:
  "(case readline f of (line', f') \<Rightarrow> lines_left line' f') \<le> length f"
  by (cases f) (auto simp: lines_left_def)

function fcm_loop ::
  "(string \<Rightarrow> real option) \<Rightarrow> nat \<Rightarrow> matrix option \<Rightarrow> string \<Rightarrow> string list
   \<Rightarrow> matrix option result" where
  "fcm_loop fl Nrows F line f =
     (if line = [] then Inr F
      else
        bind_result
          (if py_in ''Final Hessian.'' line \<or> py_in ''Hessian of the SCF Energy'' line then
             bind_result (read_hessian fl Nrows f) (\<lambda>(F', f').
               Inr (Some (scale hessian_factor F'), f'))
           else Inr (F, f))
          (\<lambda>(F', f'). case readline f' of (line', f'') \<Rightarrow> fcm_loop fl Nrows F' line' f''))"
  by pat_completeness auto
termination
proof (relation "measure (\<lambda>(fl, Nrows, F, line, f). lines_left line f)", goal_cases)
  case 1
  then show ?case by simp
next
  case (2 fl Nrows F line f x F' f' line' f'')
  then have "length f' \<le> length f"
    by (auto simp: bind_result_def split: if_splits sum.splits dest: read_hessian_length)
  moreover have "lines_left line' f'' \<le> length f'"
    using lines_left_readline_le [of f'] 2(4) [symmetric] by simp
  ultimately show ?case
    using 2(1) by (simp add: lines_left_def)
qed

declare fcm_loop.simps [simp del]

definition loadForceConstantMatrix ::
  "(string \<Rightarrow> real option) \<Rightarrow> string list \<Rightarrow> matrix option result option" where
  "loadForceConstantMatrix fl lns =
     Option.bind (getNumberOfAtoms lns) (\<lambda>Natoms.
       case readline lns of (line, f) \<Rightarrow> Some (fcm_loop fl (Natoms * 3) None line f))"


subsection \<open>Properties\<close>

lemma count_rows_at_eof_aux:
  "count_rows n line f = Some r \<Longrightarrow> \<not> (line = [] \<and> f = [])"
  by (erule count_rows.raw_induct [rotated]) (fastforce split: if_splits)

lemma count_rows_at_eof: "count_rows n [] [] = None"
  using count_rows_at_eof_aux [of n "[]" "[]"] by (cases "count_rows n [] []") auto

lemma dashes52_newline:
  "py_in ''----------------------------------------------------'' (s @ [newline]) =
   py_in ''----------------------------------------------------'' s"
  by (rule py_in_append_char) (simp_all add: newline_def)

lemma count_rows_no_delimiter:
  assumes "\<forall>l\<in>set f. \<not> py_in ''----------------------------------------------------'' l"
    and "\<not> py_in ''----------------------------------------------------'' line"
  shows "count_rows n line f = None"
  using assms
proof (induction f arbitrary: n line)
  case Nil
  then show ?case
    by (subst count_rows.simps) (simp add: count_rows_at_eof)
next
  case (Cons l f)
  have "count_rows (n + 1) (l @ [newline]) f = None"
    using Cons.prems by (intro Cons.IH) (simp_all add: dashes52_newline)
  with Cons.prems show ?case
    by (subst count_rows.simps) simp
qed

lemma fcm_loop_no_banner:
  assumes "\<forall>l\<in>set f. \<not> py_in ''Final Hessian.'' l \<and> \<not> py_in ''Hessian of the SCF Energy'' l"
    and "line = [] \<or> (\<not> py_in ''Final Hessian.'' line \<and> \<not> py_in ''Hessian of the SCF Energy'' line)"
  shows "fcm_loop fl Nrows F line f = Inr F"
  using assms
proof (induction f arbitrary: line)
  case Nil
  then show ?case
    by (auto simp: fcm_loop.simps [of fl Nrows F line] fcm_loop.simps [of fl Nrows F "[]"]
        bind_result_def)
next
  case (Cons l f)
  have nl: "\<not> py_in ''Final Hessian.'' (l @ [newline])
      \<and> \<not> py_in ''Hessian of the SCF Energy'' (l @ [newline])"
    using Cons.prems(1) by (simp add: py_in_append_char newline_def)
  have "fcm_loop fl Nrows F (l @ [newline]) f = Inr F"
    using Cons.prems nl by (intro Cons.IH) simp_all
  with Cons.prems show ?case
    by (auto simp: fcm_loop.simps [of fl Nrows F line] bind_result_def)
qed

text \<open>When \<^verbatim>\<open>getNumberOfAtoms\<close> returns and the log has no Hessian banner, the result
  is \<^verbatim>\<open>None\<close>.\<close>

lemma loadForceConstantMatrix_no_banner:
  assumes "getNumberOfAtoms lns = Some Natoms"
    and "\<forall>l\<in>set lns. \<not> py_in ''Final Hessian.'' l \<and> \<not> py_in ''Hessian of the SCF Energy'' l"
  shows "loadForceConstantMatrix fl lns = Some (Inr None)"
proof (cases lns)
  case Nil
  with assms show ?thesis
    by (simp add: loadForceConstantMatrix_def fcm_loop.simps [of _ _ _ "[]"])
next
  case (Cons l f)
  have "fcm_loop fl (Natoms * 3) None (l @ [newline]) f = Inr None"
    using assms(2) Cons by (intro fcm_loop_no_banner) (simp_all add: py_in_append_char newline_def)
  with assms(1) Cons show ?thesis
    by (simp add: loadForceConstantMatrix_def)
qed

definition truncated_log :: "string list" where
  "truncated_log =
     [''             Standard Nuclear Orientation (Angstroms)'',
      ''    I     Atom           X                Y                Z'',
      '' ----------------------------------------------------------------'',
      ''    1      H       0.0000000000     0.0000000000     0.3714770000'',
      ''    2      H       0.0000000000     0.0000000000    -0.3714770000'']"

lemma getNumberOfAtoms_truncated: "getNumberOfAtoms truncated_log = None"
  by (simp add: truncated_log_def getNumberOfAtoms_def natoms_loop.simps skip3_def
      count_rows_no_delimiter newline_def)

text \<open>
  C3. \<^verbatim>\<open>loadForceConstantMatrix\<close> starts with \<^verbatim>\<open>getNumberOfAtoms\<close>. On a log that ends
  inside its first geometry block, before the closing row of dashes, and that holds no
  Hessian banner, the call does not return: it does not return \<^verbatim>\<open>None\<close>, the value
  that the docstring promises when no force constant matrix is found.
\<close>

theorem loadForceConstantMatrix_truncated_geometry:
  "list_all (\<lambda>l. \<not> py_in ''Final Hessian.'' l \<and> \<not> py_in ''Hessian of the SCF Energy'' l)
     truncated_log
   \<and> loadForceConstantMatrix fl truncated_log = None"
  by (simp add: loadForceConstantMatrix_def getNumberOfAtoms_truncated)
     (simp add: truncated_log_def)

definition square :: "nat \<Rightarrow> matrix \<Rightarrow> bool" where
  "square n F = (length F = n \<and> (\<forall>r\<in>set F. length r = n))"

lemma square_zeros: "square n (zeros n n)"
  by (simp add: square_def zeros_def)

lemma square_scale: "square n F \<Longrightarrow> square n (scale x F)"
  by (simp add: square_def scale_def)

lemma square_set_elem: "square n F \<Longrightarrow> set_elem F j c v = Inr F' \<Longrightarrow> square n F'"
  by (auto simp: square_def set_elem_def split: if_splits dest!: set_update_subset_insert [THEN subsetD])

lemma square_fill_row:
  assumes "fill_row fl data j i F = Inr F'" and "square n F"
  shows "square n F'"
  using assms unfolding fill_row_def
  by (rule for_each_invariant)
     (auto simp: bind_result_def split: sum.splits dest: square_set_elem)

lemma square_fill_rows:
  assumes "fill_rows fl Nrows i (F, f) = Inr (F', f')" and "square n F"
  shows "square n F'"
proof -
  have "square n (fst (F', f'))"
    using assms(1) unfolding fill_rows_def
  proof (rule for_each_invariant [where P = "\<lambda>t. square n (fst t)"])
    show "square n (fst (F, f))" using assms(2) by simp
  next
    fix j and t t' :: "matrix \<times> string list"
    assume "square n (fst t)"
      and "(case t of (F, f) \<Rightarrow> case readline f of (dataline, f') \<Rightarrow>
             bind_result (fill_row fl (py_split dataline) j i F) (\<lambda>F'. Inr (F', f'))) = Inr t'"
    then show "square n (fst t')"
      by (cases t; cases "readline (snd t)")
         (auto simp: bind_result_def split: sum.splits dest: square_fill_row)
  qed
  then show ?thesis by simp
qed

lemma square_read_hessian:
  assumes "read_hessian fl Nrows f = Inr (F', f')"
  shows "square Nrows F'"
proof -
  have "square Nrows (fst (F', f'))"
    using assms unfolding read_hessian_def
  proof (rule for_each_invariant [where P = "\<lambda>t. square Nrows (fst t)"])
    show "square Nrows (fst (zeros Nrows Nrows, f))" by (simp add: square_zeros)
  next
    fix i and t t' :: "matrix \<times> string list"
    assume "square Nrows (fst t)"
      and "(case t of (F, f) \<Rightarrow> case readline f of (header, f') \<Rightarrow>
              fill_rows fl Nrows i (F, f')) = Inr t'"
    then show "square Nrows (fst t')"
      by (cases t; cases t'; cases "readline (snd t)") (auto dest: square_fill_rows)
  qed
  then show ?thesis by simp
qed

lemma square_fcm_loop:
  "fcm_loop fl Nrows F line f = Inr (Some M) \<Longrightarrow> (\<forall>M0. F = Some M0 \<longrightarrow> square Nrows M0) \<Longrightarrow>
   square Nrows M"
proof (induction fl Nrows F line f rule: fcm_loop.induct)
  case (1 fl Nrows F line f)
  show ?case
  proof (cases "line = []")
    case True
    with "1.prems" show ?thesis by (simp add: fcm_loop.simps [of fl Nrows F "[]" f])
  next
    case False
    let ?step = "if py_in ''Final Hessian.'' line \<or> py_in ''Hessian of the SCF Energy'' line then
             bind_result (read_hessian fl Nrows f) (\<lambda>(F', f').
               Inr (Some (scale hessian_factor F'), f'))
           else Inr (F, f)"
    from "1.prems"(1) False obtain F' f' where step: "?step = Inr (F', f')"
      and rest: "fcm_loop fl Nrows F' (fst (readline f')) (snd (readline f')) = Inr (Some M)"
      by (subst (asm) fcm_loop.simps)
         (auto simp: bind_result_def split: sum.splits prod.splits if_splits)
    have inv: "\<forall>M0. F' = Some M0 \<longrightarrow> square Nrows M0"
      using step "1.prems"(2)
      by (auto simp: bind_result_def split: if_splits sum.splits
          dest!: square_read_hessian intro: square_scale)
    show ?thesis
      using "1.IH" [OF False step refl, of "fst (readline f')" "snd (readline f')"] rest inv
      by simp
  qed
qed

lemma loadForceConstantMatrix_square:
  assumes "loadForceConstantMatrix fl lns = Some (Inr (Some M))"
  shows "\<exists>N. getNumberOfAtoms lns = Some N \<and> square (3 * N) M"
  using assms
  by (cases "readline lns")
     (auto simp: loadForceConstantMatrix_def mult.commute split: Option.bind_splits
       dest!: square_fcm_loop)


section \<open>\<^verbatim>\<open>QchemLog.loadGeometry\<close>\<close>

text \<open>
  \<^verbatim>\<open>get_element_mass\<close> comes from \<^verbatim>\<open>arkane.common\<close>, outside this file: it maps an
  element symbol to its mass and its atomic number, or raises. It is the parameter
  \<open>gem\<close>.
\<close>

text \<open>A small table, for running the function on concrete logs.\<close>

definition sample_element_mass :: "string \<Rightarrow> (real \<times> int) result" where
  "sample_element_mass s =
     (if s = ''H'' then Inr (1.00782503224, 1)
      else if s = ''C'' then Inr (12, 6)
      else if s = ''O'' then Inr (15.99491461957, 8)
      else Inl (OtherError ''unknown element''))"

text \<open>The local variables that the search for the geometry changes.\<close>

record geom_state =
  atom :: "string list"
  coord :: "real list list"
  geometry_flag :: bool

text \<open>\<^verbatim>\<open>for line in log[(i+3):]\<close>: the rows of one block, up to a line with twelve
  dashes or to the end of the file.\<close>

fun read_atoms ::
  "(string \<Rightarrow> real option) \<Rightarrow> string list \<Rightarrow> geom_state \<Rightarrow> geom_state result" where
  "read_atoms fl [] st = Inr st"
| "read_atoms fl (line # rest) st =
     (if \<not> py_in ''------------'' line then
        bind_result (py_index (py_split line) 1) (\<lambda>sym.
        bind_result (py_floats fl (drop 2 (py_split line))) (\<lambda>xyz.
          read_atoms fl rest
            (st\<lparr>atom := atom st @ [sym], coord := coord st @ [xyz], geometry_flag := True\<rparr>)))
      else Inr st)"

text \<open>\<^verbatim>\<open>for i in reversed(xrange(len(log)))\<close>, over the list of indices still to
  visit; the loop stops after the first block that gave a row.\<close>

fun geometry_search ::
  "(string \<Rightarrow> real option) \<Rightarrow> string list \<Rightarrow> nat list \<Rightarrow> geom_state \<Rightarrow> geom_state result" where
  "geometry_search fl lg [] st = Inr st"
| "geometry_search fl lg (i # is) st =
     (if py_in ''Standard Nuclear Orientation'' (lg ! i) then
        bind_result (read_atoms fl (drop (i + 3) lg) st) (\<lambda>st'.
          if geometry_flag st' then Inr st' else geometry_search fl lg is st')
      else geometry_search fl lg is st)"

text \<open>\<^verbatim>\<open>for atom1 in atom\<close>: the masses and the atomic numbers.\<close>

fun element_masses ::
  "(string \<Rightarrow> (real \<times> int) result) \<Rightarrow> string list \<Rightarrow> (real list \<times> int list) result" where
  "element_masses gem [] = Inr ([], [])"
| "element_masses gem (atom1 # rest) =
     bind_result (gem atom1) (\<lambda>(mass1, num1).
     bind_result (element_masses gem rest) (\<lambda>(mass, number).
       Inr (mass1 # mass, num1 # number)))"

text \<open>\<^verbatim>\<open>numpy.array(coord, numpy.float64)\<close> of a list of lists of floats: rows of
  different lengths raise \<^verbatim>\<open>ValueError\<close>.\<close>

definition numpy_array2 :: "real list list \<Rightarrow> real list list result" where
  "numpy_array2 rows =
     (if list_all (\<lambda>r. length r = length (hd rows)) rows then Inr rows else Inl ValueError)"

text \<open>The two \<^verbatim>\<open>InputError\<close>s of the method, under the names of the specification.\<close>

definition LogIncomplete :: "string \<Rightarrow> error" where
  "LogIncomplete path =
     InputError
       (''Could not find a successfully completed Qchem job in Qchem output file '' @ path)"

definition GeometryNotFound :: "string \<Rightarrow> error" where
  "GeometryNotFound path =
     InputError (''Unable to read atoms from Qchem geometry output file '' @ path)"

text \<open>\<^verbatim>\<open>f.read().splitlines()\<close> is the list of lines itself.\<close>

definition loadGeometry ::
  "(string \<Rightarrow> (real \<times> int) result) \<Rightarrow> (string \<Rightarrow> real option) \<Rightarrow> string \<Rightarrow> string list
   \<Rightarrow> (real list list \<times> int list \<times> real list) result" where
  "loadGeometry gem fl path lns =
     (let completed_job = list_ex (py_in ''Total job time:'') (rev lns) in
      if \<not> completed_job then Inl (LogIncomplete path)
      else
        bind_result
          (geometry_search fl lns (rev [0..<length lns])
             \<lparr>atom = [], coord = [], geometry_flag = False\<rparr>) (\<lambda>st.
        bind_result (element_masses gem (atom st)) (\<lambda>(mass, number).
        bind_result (numpy_array2 (coord st)) (\<lambda>coord.
          if length number = 0 \<or> length coord = 0 \<or> length mass = 0
          then Inl (GeometryNotFound path)
          else Inr (coord, number, mass)))))"

subsection \<open>Properties\<close>

lemma read_atoms_lengths:
  "read_atoms fl rows st = Inr st' \<Longrightarrow> length (coord st) = length (atom st) \<Longrightarrow>
   length (coord st') = length (atom st')"
  by (induction rows arbitrary: st) (auto simp: bind_result_def split: if_splits sum.splits)

lemma geometry_search_lengths:
  "geometry_search fl lg is st = Inr st' \<Longrightarrow> length (coord st) = length (atom st) \<Longrightarrow>
   length (coord st') = length (atom st')"
proof (induction "is" arbitrary: st)
  case Nil
  then show ?case by simp
next
  case (Cons i "is")
  then show ?case
    by (auto simp: bind_result_def split: if_splits sum.splits dest: read_atoms_lengths)
qed

lemma geometry_search_skip:
  "\<forall>i\<in>set is. \<not> py_in ''Standard Nuclear Orientation'' (lg ! i) \<Longrightarrow>
   geometry_search fl lg (is @ js) st = geometry_search fl lg js st"
  by (induction "is") simp_all

lemma geometry_search_no_block:
  assumes "\<forall>l\<in>set lg. \<not> py_in ''Standard Nuclear Orientation'' l"
  shows "geometry_search fl lg (rev [0..<length lg]) st = Inr st"
proof -
  have "\<forall>i\<in>set (rev [0..<length lg]). \<not> py_in ''Standard Nuclear Orientation'' (lg ! i)"
    using assms by simp
  from geometry_search_skip [OF this, of fl "[]" st] show ?thesis by simp
qed

text \<open>
  C2. When no line of the log contains the banner \<^verbatim>\<open>'Total job time:'\<close>,
  \<^verbatim>\<open>loadGeometry\<close> raises the \<^verbatim>\<open>LogIncomplete\<close> error, whose message ends with the path
  of the file, whatever else the log holds, a well-formed geometry block included.
  When the banner is there and the search for the geometry ends with no atom read,
  \<^verbatim>\<open>loadGeometry\<close> raises the \<^verbatim>\<open>GeometryNotFound\<close> error; so it does on every log with
  the banner and without a geometry block.
\<close>

theorem loadGeometry_errors:
  "((\<forall>l\<in>set lns. \<not> py_in ''Total job time:'' l) \<longrightarrow>
      loadGeometry gem fl path lns = Inl (LogIncomplete path))
   \<and> ((\<exists>l\<in>set lns. py_in ''Total job time:'' l)
        \<and> geometry_search fl lns (rev [0..<length lns])
             \<lparr>atom = [], coord = [], geometry_flag = False\<rparr> = Inr st
        \<and> atom st = [] \<longrightarrow>
      loadGeometry gem fl path lns = Inl (GeometryNotFound path))
   \<and> ((\<exists>l\<in>set lns. py_in ''Total job time:'' l)
        \<and> (\<forall>l\<in>set lns. \<not> py_in ''Standard Nuclear Orientation'' l) \<longrightarrow>
      loadGeometry gem fl path lns = Inl (GeometryNotFound path))"
proof (intro conjI impI)
  assume "\<forall>l\<in>set lns. \<not> py_in ''Total job time:'' l"
  then show "loadGeometry gem fl path lns = Inl (LogIncomplete path)"
    by (simp add: loadGeometry_def list_ex_iff)
next
  assume a: "(\<exists>l\<in>set lns. py_in ''Total job time:'' l)
        \<and> geometry_search fl lns (rev [0..<length lns])
             \<lparr>atom = [], coord = [], geometry_flag = False\<rparr> = Inr st
        \<and> atom st = []"
  then have "coord st = []"
    using geometry_search_lengths [of fl lns "rev [0..<length lns]"
        "\<lparr>atom = [], coord = [], geometry_flag = False\<rparr>" st]
    by simp
  with a show "loadGeometry gem fl path lns = Inl (GeometryNotFound path)"
    by (simp add: loadGeometry_def list_ex_iff bind_result_def numpy_array2_def)
next
  assume "(\<exists>l\<in>set lns. py_in ''Total job time:'' l)
        \<and> (\<forall>l\<in>set lns. \<not> py_in ''Standard Nuclear Orientation'' l)"
  then show "loadGeometry gem fl path lns = Inl (GeometryNotFound path)"
    by (simp add: loadGeometry_def list_ex_iff bind_result_def numpy_array2_def
        geometry_search_no_block)
qed

theorem loadGeometry_errors_witness:
  "loadGeometry sample_element_mass float_dec ''crashed.out''
     ['' Standard Nuclear Orientation (Angstroms)'',
      ''    I     Atom     X     Y     Z'',
      '' ----------------------------------------------------------------'',
      ''    1      H   0.0   0.0   0.0'',
      '' ----------------------------------------------------------------''] =
     Inl (InputError (''Could not find a successfully completed Qchem job in Qchem output file ''
            @ ''crashed.out''))
   \<and> loadGeometry sample_element_mass float_dec ''sp.out''
     [''Q-Chem'', '' Total job time:  0.10s(wall), 0.05s(cpu)''] =
     Inl (GeometryNotFound ''sp.out'')"
proof -
  have a: "loadGeometry sample_element_mass float_dec ''crashed.out''
     ['' Standard Nuclear Orientation (Angstroms)'',
      ''    I     Atom     X     Y     Z'',
      '' ----------------------------------------------------------------'',
      ''    1      H   0.0   0.0   0.0'',
      '' ----------------------------------------------------------------''] =
     Inl (LogIncomplete ''crashed.out'')"
    by (rule loadGeometry_errors [THEN conjunct1, THEN mp]) simp
  have b: "loadGeometry sample_element_mass float_dec ''sp.out''
     [''Q-Chem'', '' Total job time:  0.10s(wall), 0.05s(cpu)''] =
     Inl (GeometryNotFound ''sp.out'')"
    by (rule loadGeometry_errors [where st = "\<lparr>atom = [], coord = [], geometry_flag = False\<rparr>",
          THEN conjunct2, THEN conjunct1, THEN mp])
       (simp add: upt_rec)
  from a b show ?thesis
    by (simp add: LogIncomplete_def)
qed


subsection \<open>The atom count, the geometry and the Hessian\<close>

lemma startswith_iff: "startswith m s \<longleftrightarrow> (\<exists>ss. s = m @ ss)"
  by (induction m s rule: startswith.induct) auto

lemma py_in_iff: "py_in m s \<longleftrightarrow> (\<exists>ps ss. s = ps @ m @ ss)"
proof (induction s)
  case Nil
  then show ?case by simp
next
  case (Cons c cs)
  show ?case
  proof
    assume "py_in m (c # cs)"
    then consider "startswith m (c # cs)" | "py_in m cs" by auto
    then show "\<exists>ps ss. c # cs = ps @ m @ ss"
    proof cases
      case 1
      then obtain ss where "c # cs = m @ ss" by (auto simp: startswith_iff)
      then have "c # cs = [] @ m @ ss" by simp
      then show ?thesis by blast
    next
      case 2
      then obtain ps ss where "cs = ps @ m @ ss" using Cons.IH by auto
      then have "c # cs = (c # ps) @ m @ ss" by simp
      then show ?thesis by blast
    qed
  next
    assume "\<exists>ps ss. c # cs = ps @ m @ ss"
    then obtain ps ss where eq: "c # cs = ps @ m @ ss" by auto
    show "py_in m (c # cs)"
    proof (cases ps)
      case Nil
      with eq have "startswith m (c # cs)" by (auto simp: startswith_iff)
      then show ?thesis by simp
    next
      case (Cons p ps')
      with eq have "cs = ps' @ m @ ss" by simp
      then have "py_in m cs" using Cons.IH by auto
      then show ?thesis by simp
    qed
  qed
qed

lemma py_in_longer: "py_in (m @ m') s \<Longrightarrow> py_in m s"
  unfolding py_in_iff by (metis append.assoc)

lemma dashes52_dashes12:
  "py_in ''----------------------------------------------------'' s \<Longrightarrow> py_in ''------------'' s"
  using py_in_longer [of "''------------''" "''----------------------------------------''" s]
  by simp

lemma orientation_newline:
  "py_in ''Standard Nuclear Orientation'' (s @ [newline]) = py_in ''Standard Nuclear Orientation'' s"
  by (rule py_in_append_char) (simp_all add: newline_def)

lemma getNumberOfAtoms_skip:
  "\<forall>p\<in>set pre. \<not> py_in ''Standard Nuclear Orientation'' p \<Longrightarrow>
   getNumberOfAtoms (pre @ lns) = getNumberOfAtoms lns"
proof (induction pre)
  case Nil
  then show ?case by simp
next
  case (Cons p pre)
  have "getNumberOfAtoms (p # pre @ lns) = getNumberOfAtoms (pre @ lns)"
    using Cons.prems
    by (simp add: getNumberOfAtoms_def natoms_loop.simps [of 0 "p @ [newline]"]
        orientation_newline)
  with Cons show ?case by simp
qed

lemma count_rows_block:
  assumes "\<forall>r\<in>set rows. \<not> py_in ''----------------------------------------------------'' r"
    and "py_in ''----------------------------------------------------'' d"
    and "\<not> py_in ''----------------------------------------------------'' line"
  shows "count_rows n line (rows @ d # post) = Some (Suc (n + length rows), d @ [newline], post)"
  using assms
proof (induction rows arbitrary: n line)
  case Nil
  then show ?case
    by (simp add: count_rows.simps [of n line] count_rows.simps [of _ "d @ [newline]"]
        dashes52_newline)
next
  case (Cons r rows)
  have "count_rows (n + 1) (r @ [newline]) (rows @ d # post) =
        Some (Suc (n + 1 + length rows), d @ [newline], post)"
    using Cons.prems by (intro Cons.IH) (simp_all add: dashes52_newline)
  with Cons.prems show ?case
    by (simp add: count_rows.simps [of n line])
qed

lemma getNumberOfAtoms_block:
  assumes "py_in ''Standard Nuclear Orientation'' b"
    and "\<forall>r\<in>set (r1 # rows). \<not> py_in ''----------------------------------------------------'' r"
    and "py_in ''----------------------------------------------------'' d"
  shows "getNumberOfAtoms (b # h1 # h2 # (r1 # rows) @ d # post) = Some (length (r1 # rows))"
proof -
  have "count_rows 0 (r1 @ [newline]) (rows @ d # post) =
        Some (Suc (0 + length rows), d @ [newline], post)"
    using assms by (intro count_rows_block) (simp_all add: dashes52_newline)
  then show ?thesis
    using assms(1)
    by (cases "readline post")
       (simp add: getNumberOfAtoms_def natoms_loop.simps [of 0 "b @ [newline]"]
         natoms_loop.simps [of "Suc _"] orientation_newline skip3_def)
qed

lemma read_atoms_stop:
  "py_in ''------------'' d \<Longrightarrow> read_atoms fl (rows @ d # post) st = read_atoms fl rows st"
  by (induction rows arbitrary: st) (simp_all cong: bind_result_cong)

lemma read_atoms_count:
  "read_atoms fl rows st = Inr st' \<Longrightarrow> \<forall>r\<in>set rows. \<not> py_in ''------------'' r \<Longrightarrow>
   length (atom st') = length (atom st) + length rows \<and> (rows \<noteq> [] \<longrightarrow> geometry_flag st')"
proof (induction rows arbitrary: st)
  case Nil
  then show ?case by simp
next
  case (Cons r rows)
  from Cons.prems obtain sym xyz where
    "read_atoms fl rows
       (st\<lparr>atom := atom st @ [sym], coord := coord st @ [xyz], geometry_flag := True\<rparr>) = Inr st'"
    by (auto simp: bind_result_def split: sum.splits)
  from Cons.IH [OF this] Cons.prems(2) have
    len: "length (atom st') = Suc (length (atom st)) + length rows"
    and flag: "rows \<noteq> [] \<longrightarrow> geometry_flag st'"
    by simp_all
  have "geometry_flag st'"
  proof (cases rows)
    case Nil
    with \<open>read_atoms fl rows _ = Inr st'\<close> show ?thesis by auto
  next
    case (Cons a list)
    with flag show ?thesis by simp
  qed
  with len show ?case by simp
qed

lemma element_masses_length:
  "element_masses gem as = Inr (mass, number) \<Longrightarrow>
   length mass = length as \<and> length number = length as"
  by (induction as arbitrary: mass number)
     (auto simp: bind_result_def split: sum.splits prod.splits)

lemma geometry_search_block:
  assumes lns: "lns = pre @ b # h1 # h2 # rows @ d # post"
    and b: "py_in ''Standard Nuclear Orientation'' b"
    and after: "\<forall>l\<in>set (h1 # h2 # rows @ d # post). \<not> py_in ''Standard Nuclear Orientation'' l"
    and rows: "rows \<noteq> []" "\<forall>r\<in>set rows. \<not> py_in ''------------'' r"
    and d: "py_in ''------------'' d"
    and res: "geometry_search fl lns (rev [0..<length lns]) st = Inr st'"
  shows "length (atom st') = length (atom st) + length rows"
proof -
  let ?k = "length pre"
  have k: "?k < length lns" using lns by simp
  have upt: "[0..<length lns] = [0..<?k] @ ?k # [Suc ?k..<length lns]"
    using k by (metis less_imp_le_nat upt_add_eq_append upt_conv_Cons le_add_diff_inverse zero_le
        add.left_neutral)
  have skip: "\<forall>i\<in>set (rev [Suc ?k..<length lns]). \<not> py_in ''Standard Nuclear Orientation'' (lns ! i)"
  proof
    fix i assume "i \<in> set (rev [Suc ?k..<length lns])"
    then have i: "Suc ?k \<le> i" "i < length lns" by auto
    then have "lns ! i = (h1 # h2 # rows @ d # post) ! (i - Suc ?k)"
      unfolding lns by (simp add: nth_append nth_Cons')
    moreover have "i - Suc ?k < length (h1 # h2 # rows @ d # post)"
      using i unfolding lns by simp
    ultimately show "\<not> py_in ''Standard Nuclear Orientation'' (lns ! i)"
      using after by (metis nth_mem)
  qed
  have at: "lns ! ?k = b" unfolding lns by simp
  have dr: "drop (?k + 3) lns = rows @ d # post" unfolding lns by simp
  have "geometry_search fl lns (rev [0..<length lns]) st =
        geometry_search fl lns (?k # rev [0..<?k]) st"
    unfolding upt using geometry_search_skip [OF skip] by simp
  also have "\<dots> = bind_result (read_atoms fl rows st) (\<lambda>st'.
          if geometry_flag st' then Inr st' else geometry_search fl lns (rev [0..<?k]) st')"
    using b by (simp add: at dr read_atoms_stop [OF d])
  finally have eq: "bind_result (read_atoms fl rows st) (\<lambda>st'.
          if geometry_flag st' then Inr st' else geometry_search fl lns (rev [0..<?k]) st') = Inr st'"
    using res by simp
  then obtain st1 where r: "read_atoms fl rows st = Inr st1"
    by (auto simp: bind_result_def split: sum.splits)
  from read_atoms_count [OF r rows(2)] rows(1) have
    "length (atom st1) = length (atom st) + length rows" "geometry_flag st1" by simp_all
  with eq r show ?thesis by (simp add: bind_result_def)
qed

lemma loadGeometry_block:
  assumes "lns = pre @ b # h1 # h2 # rows @ d # post"
    and "py_in ''Standard Nuclear Orientation'' b"
    and "\<forall>l\<in>set (h1 # h2 # rows @ d # post). \<not> py_in ''Standard Nuclear Orientation'' l"
    and "rows \<noteq> []" "\<forall>r\<in>set rows. \<not> py_in ''------------'' r"
    and "py_in ''------------'' d"
    and res: "loadGeometry gem fl path lns = Inr (xyz, number, mass)"
  shows "length number = length rows \<and> length xyz = length rows \<and> length mass = length rows"
proof -
  let ?st0 = "\<lparr>atom = [], coord = [], geometry_flag = False\<rparr>"
  from res obtain st where
    s: "geometry_search fl lns (rev [0..<length lns]) ?st0 = Inr st"
    and m: "element_masses gem (atom st) = Inr (mass, number)"
    and c: "xyz = coord st"
    by (auto simp: loadGeometry_def Let_def bind_result_def numpy_array2_def
        split: if_splits sum.splits prod.splits)
  have "length (atom st) = length rows"
    using geometry_search_block [OF assms(1-6) s] by simp
  moreover have "length (coord st) = length (atom st)"
    using geometry_search_lengths [OF s] by simp
  ultimately show ?thesis
    using element_masses_length [OF m] c by simp
qed


definition two_block_log :: "string list" where
  "two_block_log =
     ['' Standard Nuclear Orientation (Angstroms)'',
      ''    I     Atom     X     Y     Z'',
      '' ----------------------------------------------------------------'',
      ''    1      H   0.0   0.0   0.0'',
      '' ----------------------------------------------------------------'',
      '' Standard Nuclear Orientation (Angstroms)'',
      ''    I     Atom     X     Y     Z'',
      '' ----------------------------------------------------------------'',
      ''    1      H   0.0   0.0   0.37'',
      ''    2      H   0.0   0.0   -0.37'',
      '' ----------------------------------------------------------------'',
      '' Total job time:  0.10s(wall), 0.05s(cpu)'']"


lemma getNumberOfAtoms_first_block:
  assumes "lns = pre @ b # h1 # h2 # rows @ d # post"
    and "\<forall>l\<in>set pre. \<not> py_in ''Standard Nuclear Orientation'' l"
    and "py_in ''Standard Nuclear Orientation'' b"
    and "rows \<noteq> []"
    and "\<forall>r\<in>set rows. \<not> py_in ''----------------------------------------------------'' r"
    and "py_in ''----------------------------------------------------'' d"
  shows "getNumberOfAtoms lns = Some (length rows)"
proof -
  from assms(4) obtain r1 rs where rows: "rows = r1 # rs" by (cases rows) auto
  have "getNumberOfAtoms lns = getNumberOfAtoms (b # h1 # h2 # (r1 # rs) @ d # post)"
    using assms(1,2) getNumberOfAtoms_skip [of pre "b # h1 # h2 # rows @ d # post"] rows by simp
  also have "\<dots> = Some (length (r1 # rs))"
    using assms(3,5,6) rows by (intro getNumberOfAtoms_block) simp_all
  finally show ?thesis
    using rows by simp
qed


definition frequency_job_log :: "string list" where
  "frequency_job_log =
     ['' Standard Nuclear Orientation (Angstroms)'',
      ''    I     Atom     X     Y     Z'',
      '' ----------------------------------------------------------------'',
      ''    1      H   0.0   0.0   0.0'',
      '' ----------------------------------------------------------------'',
      '' Hessian of the SCF Energy'',
      ''      1    2    3'',
      ''  1   1.5  0.0  0.0'',
      ''  2   0.0  2.5  0.0'',
      ''  3   0.0  0.0  4.0'',
      '' Total job time:  0.10s(wall), 0.05s(cpu)'']"



section \<open>\<^verbatim>\<open>QchemLog.loadConformer\<close>\<close>

text \<open>
  The classes \<^verbatim>\<open>IdealGasTranslation\<close>, \<^verbatim>\<open>LinearRotor\<close>, \<^verbatim>\<open>NonlinearRotor\<close>,
  \<^verbatim>\<open>HarmonicOscillator\<close> and \<^verbatim>\<open>Conformer\<close> come from \<^verbatim>\<open>rmgpy.statmech\<close>, outside this
  file. They are the constructors of a datatype and a record that keep the arguments of
  the calls; the unit strings are left out.
\<close>

text \<open>\<^verbatim>\<open>numpy.sqrt(x)\<close>: of a negative number it is NaN (with a warning, not an
  exception); \<open>None\<close> stands for NaN.\<close>

definition numpy_sqrt :: "real \<Rightarrow> real option" where
  "numpy_sqrt x = (if x < 0 then None else Some (sqrt x))"

datatype mode =
    IdealGasTranslation real
  | LinearRotor "real option" int
  | NonlinearRotor "real list" int
  | HarmonicOscillator "real list"

record Conformer =
  E0 :: real
  modes :: "mode list"
  spinMultiplicity :: int
  opticalIsomers :: int

text \<open>The local variables of \<^verbatim>\<open>loadConformer\<close> that its loops change. The variable
  \<^verbatim>\<open>modes\<close> is only assigned before the \<^verbatim>\<open>return\<close> reads it, and \<^verbatim>\<open>E0\<close> is never
  assigned after its initialisation; neither is part of the state.\<close>

record conf_state =
  spin :: int
  symmetry :: "int option"
  freq :: "mode list"
  mmass :: "mode list"
  rot :: "mode list"
  inertia :: "real list"

text \<open>The frequencies of one \<^verbatim>\<open>' Frequency:'\<close> line.\<close>

definition frequency_line ::
  "(string \<Rightarrow> real option) \<Rightarrow> string \<Rightarrow> real list \<Rightarrow> real list result" where
  "frequency_line fl line frequencies =
     (let toks = py_split line in
      if length toks = 4 then
        bind_result (py_floats fl (last_n 3 toks)) (\<lambda>vs. Inr (frequencies @ vs))
      else if length toks = 3 then
        bind_result (py_floats fl (last_n 2 toks)) (\<lambda>vs. Inr (frequencies @ vs))
      else if length toks = 2 then
        bind_result (py_floats fl (last_n 1 toks)) (\<lambda>vs. Inr (frequencies @ vs))
      else Inr frequencies)"

text \<open>\<^verbatim>\<open>while 'STANDARD THERMODYNAMIC QUANTITIES AT' not in line\<close>: the loop has no
  test for the end of the file, where it runs for ever; \<open>None\<close> is a loop that does not
  end.\<close>

partial_function (option) frequency_block ::
  "(string \<Rightarrow> real option) \<Rightarrow> real list \<Rightarrow> string \<Rightarrow> string list
   \<Rightarrow> (real list \<times> string \<times> string list) result option" where
  "frequency_block fl frequencies line f =
     (if \<not> py_in ''STANDARD THERMODYNAMIC QUANTITIES AT'' line then
        (case (if py_in '' Frequency:'' line then frequency_line fl line frequencies
               else Inr frequencies) of
           Inl e \<Rightarrow> Some (Inl e)
         | Inr frequencies' \<Rightarrow>
             (case readline f of (line', f') \<Rightarrow> frequency_block fl frequencies' line' f'))
      else Some (Inr (frequencies, line, f)))"

text \<open>\<^verbatim>\<open>if frequencies[0] < 0.0: frequencies = frequencies[1:]\<close>.\<close>

definition strip_imaginary :: "real list \<Rightarrow> real list result" where
  "strip_imaginary frequencies =
     (case frequencies of
        [] \<Rightarrow> Inl IndexError
      | x # xs \<Rightarrow> if x < 0 then Inr xs else Inr frequencies)"

text \<open>\<^verbatim>\<open>xs[-1]\<close>.\<close>

definition py_last :: "'a list \<Rightarrow> 'a result" where
  "py_last xs = (if xs = [] then Inl IndexError else Inr (last xs))"

text \<open>One pass through the body of the inner \<^verbatim>\<open>while\<close> loop, for a line that is not
  the end of the section: the \<^verbatim>\<open>elif\<close> chain. It returns the state, the line in hand
  and the rest of the file.\<close>

definition section_step ::
  "(string \<Rightarrow> real option) \<Rightarrow> bool \<Rightarrow> conf_state \<Rightarrow> string \<Rightarrow> string list
   \<Rightarrow> (conf_state \<times> string \<times> string list) result option" where
  "section_step fl symfromlog st line f =
     (if py_in ''VIBRATIONAL FREQUENCIES (CM**-1)'' line then
        (case frequency_block fl [] line f of
           None \<Rightarrow> None
         | Some (Inl e) \<Rightarrow> Some (Inl e)
         | Some (Inr (frequencies, line1, f1)) \<Rightarrow>
             (case readline f1 of (line2, f2) \<Rightarrow>
                Some (bind_result (strip_imaginary frequencies) (\<lambda>frequencies'.
                  Inr (st\<lparr>freq := freq st @ [HarmonicOscillator frequencies']\<rparr>, line2, f2)))))
      else if py_in ''Molecular Mass:'' line then
        Some (bind_result (py_index (py_split line) 2) (\<lambda>tok.
              bind_result (py_float fl tok) (\<lambda>mass.
                Inr (st\<lparr>mmass := mmass st @ [IdealGasTranslation mass]\<rparr>, line, f))))
      else if py_in ''Eigenvalues --'' line then
        Some (bind_result (py_floats fl (last_n 3 (py_split line))) (\<lambda>vs.
                Inr (st\<lparr>inertia := vs\<rparr>, line, f)))
      else if py_in ''Rotational Symmetry Number is'' line \<and> symfromlog then
        Some (bind_result (py_last (py_split line)) (\<lambda>tok.
              bind_result (py_float fl tok) (\<lambda>v.
                Inr (st\<lparr>symmetry := Some (py_int v)\<rparr>, line, f))))
      else Some (Inr (st, line, f)))"

text \<open>The inner \<^verbatim>\<open>while line != ''\<close> loop, over the vibrational analysis section.\<close>

partial_function (option) section_loop ::
  "(string \<Rightarrow> real option) \<Rightarrow> bool \<Rightarrow> conf_state \<Rightarrow> string \<Rightarrow> string list
   \<Rightarrow> (conf_state \<times> string \<times> string list) result option" where
  "section_loop fl symfromlog st line f =
     (if line \<noteq> [] then
        if py_in ''Thank you very much for using Q-Chem.'' line then Some (Inr (st, line, f))
        else
          (case section_step fl symfromlog st line f of
             None \<Rightarrow> None
           | Some (Inl e) \<Rightarrow> Some (Inl e)
           | Some (Inr (st', line', f')) \<Rightarrow>
               (case readline f' of (line'', f'') \<Rightarrow> section_loop fl symfromlog st' line'' f''))
      else Some (Inr (st, line, f)))"

text \<open>\<^verbatim>\<open>for i in range(n): inertia[i] *= x\<close>.\<close>

definition scale_first :: "nat \<Rightarrow> real \<Rightarrow> real list \<Rightarrow> real list result" where
  "scale_first n x xs =
     for_each [0..<n]
       (\<lambda>i xs. if i < length xs then Inr (xs[i := xs ! i * x]) else Inl IndexError) xs"

text \<open>\<^verbatim>\<open>xs.remove(v)\<close>: the first element equal to \<open>v\<close> goes.\<close>

definition py_remove :: "'a \<Rightarrow> 'a list \<Rightarrow> 'a list result" where
  "py_remove v xs = (if v \<in> set xs then Inr (remove1 v xs) else Inl ValueError)"

text \<open>The classification of the rotor, the \<^verbatim>\<open>if len(inertia):\<close> statement at the end
  of the body of the outer loop.\<close>

definition classify_rotor :: "constants \<Rightarrow> conf_state \<Rightarrow> conf_state result" where
  "classify_rotor c st =
     (if length (inertia st) \<noteq> 0 then
        let symmetry' = (case symmetry st of None \<Rightarrow> 1 | Some s \<Rightarrow> s) in
        if hd (inertia st) = 0 then
          bind_result (py_remove 0 (inertia st)) (\<lambda>inertia1.
          bind_result (scale_first 2 ((a0 c / (1 / 10 ^ 10)) ^ 2) inertia1) (\<lambda>inertia2.
            Inr (st\<lparr>symmetry := Some symmetry',
                   rot := rot st @ [LinearRotor (numpy_sqrt (inertia2 ! 0 * inertia2 ! 1)) symmetry'],
                   inertia := []\<rparr>)))
        else
          bind_result (scale_first 3 ((a0 c / (1 / 10 ^ 10)) ^ 2) (inertia st)) (\<lambda>inertia3.
            Inr (st\<lparr>symmetry := Some symmetry',
                   rot := rot st @ [NonlinearRotor inertia3 symmetry'],
                   inertia := []\<rparr>))
      else Inr st)"

text \<open>The first part of the body of the outer loop: the \<^verbatim>\<open>if\<close>/\<^verbatim>\<open>elif\<close> on the line
  in hand.\<close>

definition conformer_step ::
  "(string \<Rightarrow> real option) \<Rightarrow> bool \<Rightarrow> conf_state \<Rightarrow> string \<Rightarrow> string list
   \<Rightarrow> (conf_state \<times> string \<times> string list) result option" where
  "conformer_step fl symfromlog st line f =
     (if py_in ''$molecule'' line \<and> spin st = 0 then
        (case readline f of (line1, f1) \<Rightarrow>
           if length (py_split line1) = 2 then
             Some (bind_result (py_index (py_split line1) 1) (\<lambda>tok.
                   bind_result (py_float fl tok) (\<lambda>v. Inr (st\<lparr>spin := py_int v\<rparr>, line1, f1))))
           else Some (Inr (st, line1, f1)))
      else if py_in ''VIBRATIONAL ANALYSIS'' line then
        (case readline f of (line1, f1) \<Rightarrow> section_loop fl symfromlog st line1 f1)
      else Some (Inr (st, line, f)))"

text \<open>The outer \<^verbatim>\<open>while line != ''\<close> loop.\<close>

partial_function (option) conformer_loop ::
  "constants \<Rightarrow> (string \<Rightarrow> real option) \<Rightarrow> bool \<Rightarrow> conf_state \<Rightarrow> string \<Rightarrow> string list
   \<Rightarrow> conf_state result option" where
  "conformer_loop c fl symfromlog st line f =
     (if line \<noteq> [] then
        (case conformer_step fl symfromlog st line f of
           None \<Rightarrow> None
         | Some (Inl e) \<Rightarrow> Some (Inl e)
         | Some (Inr (st1, line1, f1)) \<Rightarrow>
             (case readline f1 of (line2, f2) \<Rightarrow>
                (case classify_rotor c st1 of
                   Inl e \<Rightarrow> Some (Inl e)
                 | Inr st2 \<Rightarrow> conformer_loop c fl symfromlog st2 line2 f2)))
      else Some (Inr st))"

text \<open>The method. The argument \<^verbatim>\<open>label\<close> is only logged. In the \<^verbatim>\<open>return\<close>, \<open>0\<close> is
  the value of the local variable \<^verbatim>\<open>E0\<close>, set to \<^verbatim>\<open>0.0\<close> in the first lines and never
  assigned again.\<close>

definition loadConformer ::
  "constants \<Rightarrow> (string \<Rightarrow> real option) \<Rightarrow> string list \<Rightarrow> int option \<Rightarrow> int \<Rightarrow> int \<Rightarrow> bool
   \<Rightarrow> string \<Rightarrow> Conformer result option" where
  "loadConformer c fl lns symmetry0 spinMultiplicity0 opticalIsomers0 symfromlog label =
     (case readline lns of (line, f) \<Rightarrow>
        (case conformer_loop c fl symfromlog
                \<lparr>spin = spinMultiplicity0, symmetry = symmetry0, freq = [], mmass = [],
                 rot = [], inertia = []\<rparr> line f of
           None \<Rightarrow> None
         | Some (Inl e) \<Rightarrow> Some (Inl e)
         | Some (Inr st) \<Rightarrow>
             Some (Inr \<lparr>E0 = 0 * 0.001, modes = mmass st @ rot st @ freq st,
                        spinMultiplicity = spin st, opticalIsomers = opticalIsomers0\<rparr>)))"


subsection \<open>Properties\<close>

lemma scale_first_2: "scale_first 2 x [u, v] = Inr [u * x, v * x]"
  by (simp add: scale_first_def bind_result_def upt_rec eval_nat_numeral)

lemma scale_first_3: "scale_first 3 x [u, v, w] = Inr [u * x, v * x, w * x]"
  by (simp add: scale_first_def bind_result_def upt_rec eval_nat_numeral)

lemma numpy_sqrt_square: "0 \<le> a \<Longrightarrow> numpy_sqrt (a * x\<^sup>2 * (a * x\<^sup>2)) = Some (a * x\<^sup>2)"
  by (simp add: numpy_sqrt_def real_sqrt_mult)

text \<open>
  C1, as amended. With three eigenvalues \<open>[e1, e2, e3]\<close> recorded from an
  \<^verbatim>\<open>'Eigenvalues --'\<close> line, the classification appends a \<^verbatim>\<open>LinearRotor\<close> exactly when
  the first recorded eigenvalue \<open>e1\<close> is zero: the zero is removed, the other two are
  multiplied by \<open>(a0 / 1e-10)\<^sup>2\<close>, and the moment is \<^verbatim>\<open>numpy.sqrt\<close> of their product, their
  geometric mean. Otherwise it appends a \<^verbatim>\<open>NonlinearRotor\<close> with the three converted
  eigenvalues. The symmetry number is the one in force, 1 when there is none. For the
  eigenvalues \<open>[0, a, a]\<close> with \<open>a \<ge> 0\<close> the moment is \<open>a * (a0 / 1e-10)\<^sup>2\<close>.
\<close>

theorem classify_rotor_three_eigenvalues:
  assumes "inertia st = [e1, e2, e3]"
  shows "classify_rotor c st =
           Inr (st\<lparr>symmetry := Some (case symmetry st of None \<Rightarrow> 1 | Some s \<Rightarrow> s),
                  rot := rot st @
                    [if e1 = 0
                     then LinearRotor
                            (numpy_sqrt (e2 * (a0 c / (1 / 10 ^ 10))\<^sup>2 * (e3 * (a0 c / (1 / 10 ^ 10))\<^sup>2)))
                            (case symmetry st of None \<Rightarrow> 1 | Some s \<Rightarrow> s)
                     else NonlinearRotor
                            [e1 * (a0 c / (1 / 10 ^ 10))\<^sup>2, e2 * (a0 c / (1 / 10 ^ 10))\<^sup>2,
                             e3 * (a0 c / (1 / 10 ^ 10))\<^sup>2]
                            (case symmetry st of None \<Rightarrow> 1 | Some s \<Rightarrow> s)],
                  inertia := []\<rparr>)
         \<and> (e1 = 0 \<and> e2 = e3 \<and> 0 \<le> e3 \<longrightarrow>
              numpy_sqrt (e2 * (a0 c / (1 / 10 ^ 10))\<^sup>2 * (e3 * (a0 c / (1 / 10 ^ 10))\<^sup>2)) =
              Some (e3 * (a0 c / (1 / 10 ^ 10))\<^sup>2))"
proof (intro conjI impI)
  show "classify_rotor c st =
           Inr (st\<lparr>symmetry := Some (case symmetry st of None \<Rightarrow> 1 | Some s \<Rightarrow> s),
                  rot := rot st @
                    [if e1 = 0
                     then LinearRotor
                            (numpy_sqrt (e2 * (a0 c / (1 / 10 ^ 10))\<^sup>2 * (e3 * (a0 c / (1 / 10 ^ 10))\<^sup>2)))
                            (case symmetry st of None \<Rightarrow> 1 | Some s \<Rightarrow> s)
                     else NonlinearRotor
                            [e1 * (a0 c / (1 / 10 ^ 10))\<^sup>2, e2 * (a0 c / (1 / 10 ^ 10))\<^sup>2,
                             e3 * (a0 c / (1 / 10 ^ 10))\<^sup>2]
                            (case symmetry st of None \<Rightarrow> 1 | Some s \<Rightarrow> s)],
                  inertia := []\<rparr>)"
  proof (cases "e1 = 0")
    case True
    then show ?thesis
      using assms
      by (simp add: classify_rotor_def Let_def py_remove_def scale_first_2 bind_result_def)
  next
    case False
    then show ?thesis
      using assms
      by (simp add: classify_rotor_def Let_def scale_first_3 bind_result_def)
  qed
next
  assume "e1 = 0 \<and> e2 = e3 \<and> 0 \<le> e3"
  then show "numpy_sqrt (e2 * (a0 c / (1 / 10 ^ 10))\<^sup>2 * (e3 * (a0 c / (1 / 10 ^ 10))\<^sup>2)) =
              Some (e3 * (a0 c / (1 / 10 ^ 10))\<^sup>2)"
    using numpy_sqrt_square [of e3 "a0 c / (1 / 10 ^ 10)"] by simp
qed

lemma strip_imaginary_Cons:
  "strip_imaginary (x # xs) = Inr (if x < 0 then xs else x # xs)"
  by (simp add: strip_imaginary_def)

text \<open>
  C4, as amended. When a frequency block has accumulated the values \<open>x # xs\<close>, the
  \<^verbatim>\<open>HarmonicOscillator\<close> appended holds \<open>xs\<close> if the first value \<open>x\<close> is negative and
  \<open>x # xs\<close> otherwise: only the first value is ever stripped. The finalized set has no
  negative value exactly when no value after the first is negative.
\<close>

theorem frequency_set_first_value_stripped:
  assumes "py_in ''VIBRATIONAL FREQUENCIES (CM**-1)'' line"
    and "frequency_block fl [] line f = Some (Inr (x # xs, line1, f1))"
  shows "section_step fl symfromlog st line f =
           Some (Inr (st\<lparr>freq := freq st @ [HarmonicOscillator (if x < 0 then xs else x # xs)]\<rparr>,
                      fst (readline f1), snd (readline f1)))
         \<and> ((\<forall>v\<in>set (if x < 0 then xs else x # xs). 0 \<le> v) \<longleftrightarrow> (\<forall>v\<in>set xs. 0 \<le> v))"
  using assms
  by (cases "readline f1")
     (auto simp: section_step_def strip_imaginary_Cons bind_result_def)

text \<open>
  C9. Whatever the log and the arguments, a \<^verbatim>\<open>Conformer\<close> returned by \<^verbatim>\<open>loadConformer\<close>
  has the energy \<open>E0 = 0\<close>: the method reads no energy from the log.
\<close>

theorem loadConformer_E0:
  assumes "loadConformer c fl lns symmetry0 spinMultiplicity0 opticalIsomers0 symfromlog label =
             Some (Inr conformer)"
  shows "E0 conformer = 0"
  using assms
  by (cases "readline lns")
     (auto simp: loadConformer_def split: option.splits sum.splits)

lemmas run_conformer =
  loadConformer_def conformer_loop.simps conformer_step_def section_loop.simps section_step_def
  frequency_block.simps frequency_line_def strip_imaginary_def classify_rotor_def py_remove_def
  scale_first_def py_last_def py_int_def numpy_sqrt_def

text \<open>The eigenvalues \<open>1.0, 0.0, 2.0\<close>: the smallest one is zero, the first one is
  not, and the rotor is nonlinear.\<close>

definition unsorted_eigenvalues_log :: "string list" where
  "unsorted_eigenvalues_log =
     ['' VIBRATIONAL ANALYSIS'',
      ''   Eigenvalues --     1.0   0.0   2.0'']"

theorem classify_rotor_smallest_zero_nonlinear:
  "loadConformer sample_constants
     float_dec unsorted_eigenvalues_log None 0 1 False [] =
   Some (Inr \<lparr>E0 = 0,
               modes = [NonlinearRotor
                          [1 * (52917721092 / 10 ^ 11)\<^sup>2, 0, 2 * (52917721092 / 10 ^ 11)\<^sup>2] 1],
               spinMultiplicity = 0, opticalIsomers = 1\<rparr>)
   \<and> Min (set [1, 0, 2 :: real]) = 0"
  by (simp add: unsorted_eigenvalues_log_def sample_constants_def run_conformer run_strings
      upt_rec eval_nat_numeral)

theorem classify_rotor_three_eigenvalues_witness:
  "classify_rotor sample_constants
     \<lparr>spin = 1, symmetry = None, freq = [], mmass = [], rot = [], inertia = [0, 4, 4]\<rparr> =
   Inr \<lparr>spin = 1, symmetry = Some 1, freq = [], mmass = [],
        rot = [LinearRotor (Some (4 * (52917721092 / 10 ^ 11)\<^sup>2)) 1], inertia = []\<rparr>
   \<and> classify_rotor sample_constants
     \<lparr>spin = 1, symmetry = Some 2, freq = [], mmass = [], rot = [], inertia = [1, 2, 3]\<rparr> =
   Inr \<lparr>spin = 1, symmetry = Some 2, freq = [], mmass = [],
        rot = [NonlinearRotor [1 * (52917721092 / 10 ^ 11)\<^sup>2, 2 * (52917721092 / 10 ^ 11)\<^sup>2,
                 3 * (52917721092 / 10 ^ 11)\<^sup>2] 2], inertia = []\<rparr>"
  using classify_rotor_three_eigenvalues [of
      "\<lparr>spin = 1, symmetry = None, freq = [], mmass = [], rot = [], inertia = [0, 4, 4]\<rparr>" 0 4 4
      sample_constants]
    classify_rotor_three_eigenvalues [of
      "\<lparr>spin = 1, symmetry = Some 2, freq = [], mmass = [], rot = [], inertia = [1, 2, 3]\<rparr>" 1 2 3
      sample_constants]
  by (simp add: sample_constants_def)

text \<open>A frequency block with the values \<open>-100.0, -50.0, 20.0\<close>: the first is stripped,
  the second stays.\<close>

definition two_negative_frequencies_log :: "string list" where
  "two_negative_frequencies_log =
     ['' VIBRATIONAL ANALYSIS'',
      '' VIBRATIONAL FREQUENCIES (CM**-1) AND NORMAL MODES'',
      '' Frequency:   -100.0   -50.0   20.0'',
      '' STANDARD THERMODYNAMIC QUANTITIES AT   298.15 K  AND     1.00 ATM'',
      '' Thank you very much for using Q-Chem.  Have a nice day.'']"

theorem frequency_set_second_negative_kept:
  "loadConformer sample_constants
     float_dec two_negative_frequencies_log None 0 1 False [] =
   Some (Inr \<lparr>E0 = 0, modes = [HarmonicOscillator [- 50, 20]], spinMultiplicity = 0,
               opticalIsomers = 1\<rparr>)
   \<and> (- 50 :: real) < 0"
  by (simp add: two_negative_frequencies_log_def sample_constants_def run_conformer run_strings)

theorem frequency_set_first_value_stripped_witness:
  "section_step float_dec False
     \<lparr>spin = 0, symmetry = None, freq = [], mmass = [], rot = [], inertia = []\<rparr>
     '' VIBRATIONAL FREQUENCIES (CM**-1) AND NORMAL MODES''
     ['' Frequency:   -100.0   50.0   20.0'',
      '' STANDARD THERMODYNAMIC QUANTITIES AT   298.15 K  AND     1.00 ATM'',
      ''next''] =
   Some (Inr (\<lparr>spin = 0, symmetry = None, freq = [HarmonicOscillator [50, 20]], mmass = [],
                rot = [], inertia = []\<rparr>, ''next'' @ [newline], []))"
proof -
  have "frequency_block float_dec [] '' VIBRATIONAL FREQUENCIES (CM**-1) AND NORMAL MODES''
     ['' Frequency:   -100.0   50.0   20.0'',
      '' STANDARD THERMODYNAMIC QUANTITIES AT   298.15 K  AND     1.00 ATM'',
      ''next''] =
     Some (Inr (- 100 # [50, 20],
       '' STANDARD THERMODYNAMIC QUANTITIES AT   298.15 K  AND     1.00 ATM'' @ [newline],
       [''next'']))"
    by (simp add: frequency_block.simps frequency_line_def run_strings)
  from frequency_set_first_value_stripped [OF _ this, of False
      "\<lparr>spin = 0, symmetry = None, freq = [], mmass = [], rot = [], inertia = []\<rparr>"]
  show ?thesis by simp
qed

definition linear_molecule_log :: "string list" where
  "linear_molecule_log =
     [''$molecule'',
      ''0 2'',
      '' VIBRATIONAL ANALYSIS'',
      '' VIBRATIONAL FREQUENCIES (CM**-1) AND NORMAL MODES'',
      '' Frequency:   -100.0   50.0   20.0'',
      '' STANDARD THERMODYNAMIC QUANTITIES AT   298.15 K  AND     1.00 ATM'',
      '' '',
      ''   Molecular Mass:     2.5'',
      ''   Rotational Symmetry Number is     2'',
      ''   Eigenvalues --     0.0   4.0   4.0'',
      '' Thank you very much for using Q-Chem.  Have a nice day.'']"

theorem loadConformer_E0_witness:
  "loadConformer \<lparr>a0 = 1 / 10 ^ 10, E_h = 1, Na = 1\<rparr> float_dec linear_molecule_log
     None 0 1 True ''H2'' =
   Some (Inr \<lparr>E0 = 0,
              modes = [IdealGasTranslation 2.5, LinearRotor (Some (sqrt 16)) 2,
                       HarmonicOscillator [50, 20]],
              spinMultiplicity = 2, opticalIsomers = 1\<rparr>)
   \<and> E0 \<lparr>E0 = 0,
          modes = [IdealGasTranslation 2.5, LinearRotor (Some (sqrt 16)) 2,
                   HarmonicOscillator [50, 20]],
          spinMultiplicity = 2, opticalIsomers = 1\<rparr> = 0"
proof (intro conjI)
  show a: "loadConformer \<lparr>a0 = 1 / 10 ^ 10, E_h = 1, Na = 1\<rparr> float_dec linear_molecule_log
     None 0 1 True ''H2'' =
   Some (Inr \<lparr>E0 = 0,
              modes = [IdealGasTranslation 2.5, LinearRotor (Some (sqrt 16)) 2,
                       HarmonicOscillator [50, 20]],
              spinMultiplicity = 2, opticalIsomers = 1\<rparr>)"
    by (simp add: linear_molecule_log_def run_conformer run_strings upt_rec eval_nat_numeral)
  show "E0 \<lparr>E0 = 0,
          modes = [IdealGasTranslation 2.5, LinearRotor (Some (sqrt 16)) 2,
                   HarmonicOscillator [50, 20]],
          spinMultiplicity = 2, opticalIsomers = 1\<rparr> = 0"
    by (rule loadConformer_E0 [OF a])
qed


section \<open>\<^verbatim>\<open>QchemLog.loadScanEnergies\<close>\<close>

lemma py_floats_length: "py_floats fl ts = Inr vs \<Longrightarrow> length vs = length ts"
  by (induction ts arbitrary: vs) (auto simp: bind_result_def split: sum.splits)

lemma py_index_line_nonempty:
  assumes "py_floats fl (py_split line) = Inr values" and "py_index values 0 = Inr a"
  shows "line \<noteq> []"
proof
  assume "line = []"
  then have "py_split line = []" by (simp add: py_split_def)
  with assms(1) have "values = []" by simp
  with assms(2) show False by (simp add: py_index_def)
qed

text \<open>\<^verbatim>\<open>while '-----------------' not in line\<close>: the rows of the scan summary. At the
  end of the file the line is empty, \<^verbatim>\<open>values\<close> is the empty list and \<^verbatim>\<open>values[0]\<close>
  raises.\<close>

function scan_rows ::
  "(string \<Rightarrow> real option) \<Rightarrow> real list \<Rightarrow> real list \<Rightarrow> string \<Rightarrow> string list
   \<Rightarrow> (real list \<times> real list \<times> string \<times> string list) result" where
  "scan_rows fl Vlist angle line f =
     (if \<not> py_in ''-----------------'' line then
        bind_result (py_floats fl (py_split line)) (\<lambda>values.
        bind_result (py_index values 0) (\<lambda>a.
        bind_result (py_index values 1) (\<lambda>v.
          case readline f of (line', f') \<Rightarrow> scan_rows fl (Vlist @ [v]) (angle @ [a]) line' f')))
      else Inr (Vlist, angle, line, f))"
  by pat_completeness auto
termination
proof (relation "measure (\<lambda>(fl, Vlist, angle, line, f). lines_left line f)", goal_cases)
  case 1
  then show ?case by simp
next
  case (2 fl Vlist angle line f vals a v line' f')
  then have "line \<noteq> []" by (auto dest: py_index_line_nonempty)
  from lines_left_readline [OF this, of f] 2(5) [symmetric] show ?case by simp
qed

declare scan_rows.simps [simp del]

lemma scan_rows_length:
  "scan_rows fl Vlist angle line f = Inr (V', a', line', f') \<Longrightarrow> length f' \<le> length f"
proof (induction fl Vlist angle line f rule: scan_rows.induct)
  case (1 fl Vlist angle line f)
  show ?case
  proof (cases "py_in ''-----------------'' line")
    case True
    with "1.prems" show ?thesis by (simp add: scan_rows.simps [of fl Vlist angle line f])
  next
    case False
    from "1.prems" False obtain vals a v where
      vs: "py_floats fl (py_split line) = Inr vals" "py_index vals 0 = Inr a"
        "py_index vals 1 = Inr v"
      and rest: "scan_rows fl (Vlist @ [v]) (angle @ [a]) (fst (readline f)) (snd (readline f)) =
        Inr (V', a', line', f')"
      by (subst (asm) scan_rows.simps)
         (auto simp: bind_result_def split: sum.splits prod.splits)
    have "length f' \<le> length (snd (readline f))"
      using "1.IH" [OF False vs _ rest] by (cases "readline f") simp
    also have "\<dots> \<le> length f" by (cases f) simp_all
    finally show ?thesis .
  qed
qed

text \<open>The outer loop of \<^verbatim>\<open>loadScanEnergies\<close>.\<close>

function scan_loop ::
  "(string \<Rightarrow> real option) \<Rightarrow> real list \<Rightarrow> real list \<Rightarrow> string \<Rightarrow> string list
   \<Rightarrow> (real list \<times> real list) result" where
  "scan_loop fl Vlist angle line f =
     (if line = [] then Inr (Vlist, angle)
      else
        bind_result
          (if py_in ''Summary of potential scan:'' line then
             (case readline f of (line1, f1) \<Rightarrow> scan_rows fl Vlist angle line1 f1)
           else Inr (Vlist, angle, line, f))
          (\<lambda>(Vlist', angle', line', f').
             case readline f' of (line2, f2) \<Rightarrow>
               if py_in ''SCF failed to converge'' line2 then Inr (Vlist', angle')
               else scan_loop fl Vlist' angle' line2 f2))"
  by pat_completeness auto
termination
proof (relation "measure (\<lambda>(fl, Vlist, angle, line, f). lines_left line f)", goal_cases)
  case 1
  then show ?case by simp
next
  case (2 fl Vlist angle line f x Vlist' y angle' z line' f' line2 f2)
  have "length f' \<le> length f"
  proof (cases "py_in ''Summary of potential scan:'' line")
    case True
    with 2 have "scan_rows fl Vlist angle (fst (readline f)) (snd (readline f)) =
      Inr (Vlist', angle', line', f')"
      by (cases "readline f") auto
    then have "length f' \<le> length (snd (readline f))" by (rule scan_rows_length)
    also have "\<dots> \<le> length f" by (cases f) simp_all
    finally show ?thesis .
  next
    case False
    with 2 show ?thesis by auto
  qed
  moreover have "lines_left line2 f2 \<le> length f'"
    using 2(6) [symmetric] by (cases f') (auto simp: lines_left_def)
  ultimately show ?case using 2(1) by (simp add: lines_left_def)
qed

declare scan_loop.simps [simp del]

text \<open>\<^verbatim>\<open>numpy.min\<close> of a one-dimensional array; the empty array raises
  \<^verbatim>\<open>ValueError\<close>.\<close>

definition numpy_min :: "real list \<Rightarrow> real result" where
  "numpy_min xs = (case xs of [] \<Rightarrow> Inl ValueError | x # xs' \<Rightarrow> Inr (fold min xs' x))"

text \<open>\<^verbatim>\<open>numpy.arange(start, stop, step)\<close>.\<close>

definition numpy_arange :: "real \<Rightarrow> real \<Rightarrow> real \<Rightarrow> real list" where
  "numpy_arange start stop step =
     map (\<lambda>i. start + real i * step) [0..<nat \<lceil>(stop - start) / step\<rceil>]"

text \<open>
  The method. \<^verbatim>\<open>check_conformer_energy\<close> comes from \<^verbatim>\<open>arkane.common\<close>, outside this
  file: it compares the energies and logs a warning. It is the parameter \<open>cce\<close>, which
  may raise and does not change the array. The angles read from the log are dropped
  for an evenly spaced grid; with one energy the step \<^verbatim>\<open>2*math.pi/(len(Vlist)-1)\<close>
  divides by zero.
\<close>

definition loadScanEnergies ::
  "constants \<Rightarrow> (real list \<Rightarrow> string \<Rightarrow> unit result) \<Rightarrow> (string \<Rightarrow> real option) \<Rightarrow> string
   \<Rightarrow> string list \<Rightarrow> (real list \<times> real list) result" where
  "loadScanEnergies c cce fl path lns =
     (case readline lns of (line, f) \<Rightarrow>
        bind_result (scan_loop fl [] [] line f) (\<lambda>(Vlist, angle).
        bind_result (cce Vlist path) (\<lambda>_.
        bind_result (numpy_min Vlist) (\<lambda>m.
          let Vlist1 = map (\<lambda>v. v - m) Vlist;
              Vlist2 = map (\<lambda>v. v * (E_h c * Na c)) Vlist1
          in if int (length Vlist2) - 1 = 0 then Inl ZeroDivisionError
             else Inr (Vlist2,
                       numpy_arange 0 (2 * pi + 1 / 10 ^ 5)
                         (2 * pi / real_of_int (int (length Vlist2) - 1)))))))"

subsection \<open>Properties\<close>

lemma fold_min_Min: "fold min xs (x :: real) = Min (set (x # xs))"
  by (rule Min.set_eq_fold [symmetric])

lemma numpy_min_Inr:
  "numpy_min xs = Inr m \<Longrightarrow> xs \<noteq> [] \<and> m \<in> set xs \<and> (\<forall>v\<in>set xs. m \<le> v)"
proof -
  assume a: "numpy_min xs = Inr m"
  then obtain x xs' where xs: "xs = x # xs'" by (cases xs) (auto simp: numpy_min_def)
  with a have m: "m = Min (set xs)" by (simp add: numpy_min_def fold_min_Min)
  have "Min (set xs) \<in> set xs" using xs by (intro Min_in) simp_all
  moreover have "\<forall>v\<in>set xs. Min (set xs) \<le> v" by simp
  ultimately show ?thesis using xs m by simp
qed

text \<open>
  C6. With positive constants \<^verbatim>\<open>E_h\<close> and \<^verbatim>\<open>Na\<close>, every energy list that
  \<^verbatim>\<open>loadScanEnergies\<close> returns has only entries \<open>\<ge> 0\<close> and an entry that is exactly \<open>0\<close>,
  the minimum. A list that is returned has at least two entries: with no energy row
  \<^verbatim>\<open>numpy.min\<close> raises, and with a single one the step of the angle grid divides by
  zero.
\<close>

theorem loadScanEnergies_normalized:
  assumes "0 < E_h c" and "0 < Na c"
    and "loadScanEnergies c cce fl path lns = Inr (Vlist, angle)"
  shows "(\<forall>v\<in>set Vlist. 0 \<le> v) \<and> 0 \<in> set Vlist \<and> 2 \<le> length Vlist"
proof -
  from assms(3) obtain V0 m where
    m: "numpy_min V0 = Inr m"
    and V: "Vlist = map (\<lambda>v. v * (E_h c * Na c)) (map (\<lambda>v. v - m) V0)"
    and n: "int (length V0) - 1 \<noteq> 0"
    by (cases "readline lns")
       (auto simp: loadScanEnergies_def bind_result_def Let_def
          split: sum.splits prod.splits if_splits)
  from numpy_min_Inr [OF m] have "m \<in> set V0" and le: "\<forall>v\<in>set V0. m \<le> v" by simp_all
  have k: "0 \<le> E_h c * Na c" using assms(1,2) by simp
  have "\<forall>v\<in>set Vlist. 0 \<le> v"
    unfolding V using le k by (auto intro!: mult_nonneg_nonneg)
  moreover have "(m - m) * (E_h c * Na c) \<in> set Vlist"
    unfolding V using \<open>m \<in> set V0\<close> by (auto simp: image_iff)
  moreover have "2 \<le> length Vlist"
  proof -
    have "V0 \<noteq> []" using numpy_min_Inr [OF m] by simp
    then have "length V0 \<noteq> 0" by simp
    with n have "2 \<le> length V0" by linarith
    then show ?thesis unfolding V by simp
  qed
  ultimately show ?thesis by simp
qed

definition scan_log :: "string list" where
  "scan_log =
     ['' Summary of potential scan:'',
      ''   0.0    -1.5'',
      ''   180.0    -2.0'',
      ''   360.0    -1.0'',
      '' -----------------------------'',
      '' Total job time:  0.10s(wall), 0.05s(cpu)'']"

theorem loadScanEnergies_normalized_witness:
  "loadScanEnergies \<lparr>a0 = 1, E_h = 2, Na = 3\<rparr> (\<lambda>Vlist path. Inr ()) float_dec ''scan.out'' scan_log =
     Inr ([3, 0, 6], numpy_arange 0 (2 * pi + 1 / 10 ^ 5) (2 * pi / 2))
   \<and> 0 \<in> set [3, 0, 6 :: real]"
proof (intro conjI)
  show a: "loadScanEnergies \<lparr>a0 = 1, E_h = 2, Na = 3\<rparr> (\<lambda>Vlist path. Inr ()) float_dec ''scan.out''
      scan_log = Inr ([3, 0, 6], numpy_arange 0 (2 * pi + 1 / 10 ^ 5) (2 * pi / 2))"
    by (simp add: scan_log_def loadScanEnergies_def scan_loop.simps scan_rows.simps numpy_min_def
        run_strings)
  show "0 \<in> set [3, 0, 6 :: real]"
    by (rule loadScanEnergies_normalized [OF _ _ a, THEN conjunct2, THEN conjunct1]) simp_all
qed


end
